theory Spec2Isabelle
  imports Main
begin

section \<open>Data model of \<^verbatim>\<open>src/index.tsx\<close>\<close>

text \<open>
  The TypeScript interfaces become records. A JavaScript \<^verbatim>\<open>number\<close> is modelled as
  an unbounded \<open>int\<close>: every score, bid and counter of the program is an integer
  entered through a numeric field or computed from such by \<open>+\<close>, \<open>-\<close> and \<open>*\<close>, and
  integer arithmetic on doubles is exact below \<open>2^53\<close>. An object used as a dictionary
  (\<^verbatim>\<open>{ [playerId: string]: number }\<close>) is a map \<open>string \<rightharpoonup> int\<close>; a missing key is
  \<open>None\<close>, which is what JavaScript reads as \<^verbatim>\<open>undefined\<close>.

  Field names follow the source. \<^verbatim>\<open>Player.id\<close> and \<^verbatim>\<open>Player.name\<close> carry the suffix
  \<open>_p\<close>, the fields of \<^verbatim>\<open>RoundHistoryItem\<close> the prefix \<open>h_\<close>, and the state variables of
  the \<^verbatim>\<open>App\<close> component the prefix \<open>app_\<close> where the name is taken already.
\<close>

record Player =
  id_p :: string
  name_p :: string
  lifetimeScore :: int
  gamesPlayed :: int
  wins :: int

record Team =
  name :: string
  players :: "Player list"
  score :: int

record Teams =
  team1 :: Team
  team2 :: Team

record RoundData =
  spielmacherId :: string
  bidValue :: int
  meldValues :: "string \<rightharpoonup> int"
  trickPoints :: "string \<rightharpoonup> int"
  gameAbandoned :: bool

record RoundCalculationResult =
  team1RoundScore :: int
  team2RoundScore :: int
  playerScores :: "string \<rightharpoonup> int"
  reason :: string

record RoundHistoryItem =
  h_round :: int
  h_team1RoundScore :: int
  h_team2RoundScore :: int
  h_team1Total :: int
  h_team2Total :: int
  h_spielmacherId :: string
  h_spielmacherName :: string
  h_bidValue :: int
  h_playerScores :: "string \<rightharpoonup> int"

record GameState =
  teams :: Teams
  targetScore :: int
  roundHistory :: "RoundHistoryItem list"

datatype View = game | stats

text \<open>The four state variables of \<^verbatim>\<open>App\<close> (lines 213-216).\<close>

record AppState =
  app_view :: View
  app_players :: "Player list"
  activeGame :: "GameState option"
  winner :: "Team option"

datatype TeamKey = Team1Key | Team2Key

fun teamAt :: "Teams \<Rightarrow> TeamKey \<Rightarrow> Team" where
  "teamAt ts Team1Key = team1 ts"
| "teamAt ts Team2Key = team2 ts"

section \<open>Scoring logic: \<^verbatim>\<open>calculateRoundScores\<close> (lines 146-209)\<close>

text \<open>\<^verbatim>\<open>m[k] || 0\<close>: a missing entry, and the entry 0 itself, read as 0.\<close>

definition lookup0 :: "(string \<rightharpoonup> int) \<Rightarrow> string \<Rightarrow> int" where
  "lookup0 m k = (case m k of None \<Rightarrow> 0 | Some v \<Rightarrow> v)"

text \<open>
  Template literals print numbers in decimal. \<open>showInt\<close> is JavaScript's
  \<^verbatim>\<open>String(n)\<close> on the integers (below \<open>10^21\<close>, where JavaScript switches to the
  exponent notation).
\<close>

fun showNat :: "nat \<Rightarrow> string" where
  "showNat n =
     (if n < 10 then [''0123456789'' ! n]
      else showNat (n div 10) @ [''0123456789'' ! (n mod 10)])"

declare showNat.simps [simp del]

definition showInt :: "int \<Rightarrow> string" where
  "showInt i = (if i < 0 then CHR ''-'' # showNat (nat (- i)) else showNat (nat i))"

text \<open>Line 149: \<^verbatim>\<open>teams.team1.players.some(p => p.id === spielmacherId) ? 'team1' : 'team2'\<close>.\<close>

definition spielmacherTeamKey :: "RoundData \<Rightarrow> Teams \<Rightarrow> TeamKey" where
  "spielmacherTeamKey rd ts =
     (if list_ex (\<lambda>p. id_p p = spielmacherId rd) (players (team1 ts)) then Team1Key
      else Team2Key)"

text \<open>Line 150.\<close>

definition otherTeamKey :: "RoundData \<Rightarrow> Teams \<Rightarrow> TeamKey" where
  "otherTeamKey rd ts =
     (if spielmacherTeamKey rd ts = Team1Key then Team2Key else Team1Key)"

text \<open>Lines 152-153.\<close>

definition spielmacherTeam :: "RoundData \<Rightarrow> Teams \<Rightarrow> Team" where
  "spielmacherTeam rd ts = teamAt ts (spielmacherTeamKey rd ts)"

definition otherTeam :: "RoundData \<Rightarrow> Teams \<Rightarrow> Team" where
  "otherTeam rd ts = teamAt ts (otherTeamKey rd ts)"

text \<open>Lines 158-159: \<^verbatim>\<open>reduce\<close> is a left fold from 0.\<close>

definition getTeamMeld :: "RoundData \<Rightarrow> Team \<Rightarrow> int" where
  "getTeamMeld rd team =
     fold (\<lambda>p sum. sum + lookup0 (meldValues rd) (id_p p)) (players team) 0"

definition getTeamTricks :: "RoundData \<Rightarrow> Team \<Rightarrow> int" where
  "getTeamTricks rd team =
     fold (\<lambda>p sum. sum + lookup0 (trickPoints rd) (id_p p)) (players team) 0"

text \<open>
  The expression of lines 176 and 185, which reads \<^verbatim>\<open>p.id\<close> only:
  \<^verbatim>\<open>(trickPoints[p.id] || 0) === 0 ? 0 : (meldValues[p.id] || 0) + (trickPoints[p.id] || 0)\<close>.
\<close>

definition zeroTrickScore :: "RoundData \<Rightarrow> string \<Rightarrow> int" where
  "zeroTrickScore rd pid =
     (if lookup0 (trickPoints rd) pid = 0 then 0
      else lookup0 (meldValues rd) pid + lookup0 (trickPoints rd) pid)"

text \<open>\<^verbatim>\<open>team.players.forEach(p => playerScores[p.id] = f(p))\<close>: the assignments in order.\<close>

definition assignScores :: "(Player \<Rightarrow> int) \<Rightarrow> Team \<Rightarrow> (string \<rightharpoonup> int) \<Rightarrow> (string \<rightharpoonup> int)" where
  "assignScores f team ps = fold (\<lambda>p acc. acc(id_p p \<mapsto> f p)) (players team) ps"

text \<open>
  Line 189. \<^verbatim>\<open>playerScores[p.id]\<close> is read without a default; the function is called
  on the two teams only, after every player of both has been assigned a score
  (lemma \<open>playerScores_defined\<close> below), so the read is never \<^verbatim>\<open>undefined\<close>.
\<close>

definition getTeamScoreFromPlayerScores :: "(string \<rightharpoonup> int) \<Rightarrow> Team \<Rightarrow> int" where
  "getTeamScoreFromPlayerScores ps team =
     fold (\<lambda>p sum. sum + the (ps (id_p p))) (players team) 0"

text \<open>Lines 168-170.\<close>

definition spielmacherTeamTotal :: "RoundData \<Rightarrow> Teams \<Rightarrow> int" where
  "spielmacherTeamTotal rd ts =
     getTeamMeld rd (spielmacherTeam rd ts) + getTeamTricks rd (spielmacherTeam rd ts)"

text \<open>Lines 161-187: the per-player scores and the rationale.\<close>

definition roundPlayerScores :: "RoundData \<Rightarrow> Teams \<Rightarrow> (string \<rightharpoonup> int)" where
  "roundPlayerScores rd ts =
     (if gameAbandoned rd then
        assignScores (\<lambda>p. 0) (otherTeam rd ts)
          (assignScores (\<lambda>p. 0) (spielmacherTeam rd ts) Map.empty)
      else
        assignScores (\<lambda>p. zeroTrickScore rd (id_p p)) (otherTeam rd ts)
          (if spielmacherTeamTotal rd ts \<ge> bidValue rd
           then assignScores (\<lambda>p. zeroTrickScore rd (id_p p)) (spielmacherTeam rd ts) Map.empty
           else assignScores (\<lambda>p. 0) (spielmacherTeam rd ts) Map.empty))"

definition roundReason :: "RoundData \<Rightarrow> Teams \<Rightarrow> string" where
  "roundReason rd ts =
     (if gameAbandoned rd then ''Spielmacher hat abgebrochen''
      else if spielmacherTeamTotal rd ts \<ge> bidValue rd
      then ''Reizwert erreicht ('' @ showInt (spielmacherTeamTotal rd ts) @ '' >= ''
             @ showInt (bidValue rd) @ '')''
      else ''Reizwert nicht erreicht ('' @ showInt (spielmacherTeamTotal rd ts) @ '' < ''
             @ showInt (bidValue rd) @ '')'')"

text \<open>
  Lines 191-201: the bidder's team's score, with the penalties at team level. Line 197
  computes the total of lines 168-170 again.
\<close>

definition spielmacherTeamRoundScore :: "RoundData \<Rightarrow> Teams \<Rightarrow> int" where
  "spielmacherTeamRoundScore rd ts =
     (if gameAbandoned rd then - bidValue rd
      else if spielmacherTeamTotal rd ts < bidValue rd then - 2 * bidValue rd
      else getTeamScoreFromPlayerScores (roundPlayerScores rd ts) (spielmacherTeam rd ts))"

text \<open>Line 203.\<close>

definition otherTeamRoundScore :: "RoundData \<Rightarrow> Teams \<Rightarrow> int" where
  "otherTeamRoundScore rd ts =
     getTeamScoreFromPlayerScores (roundPlayerScores rd ts) (otherTeam rd ts)"

text \<open>Lines 205-208.\<close>

definition calculateRoundScores :: "RoundData \<Rightarrow> Teams \<Rightarrow> RoundCalculationResult" where
  "calculateRoundScores rd ts =
     \<lparr> team1RoundScore =
         (if spielmacherTeamKey rd ts = Team1Key then spielmacherTeamRoundScore rd ts
          else otherTeamRoundScore rd ts),
       team2RoundScore =
         (if spielmacherTeamKey rd ts = Team2Key then spielmacherTeamRoundScore rd ts
          else otherTeamRoundScore rd ts),
       playerScores = roundPlayerScores rd ts,
       reason = roundReason rd ts \<rparr>"

text \<open>The round score that a result holds for the team of a key.\<close>

fun roundScoreAt :: "RoundCalculationResult \<Rightarrow> TeamKey \<Rightarrow> int" where
  "roundScoreAt r Team1Key = team1RoundScore r"
| "roundScoreAt r Team2Key = team2RoundScore r"

text \<open>The player ids of a team, in order.\<close>

definition teamIds :: "Team \<Rightarrow> string list" where
  "teamIds team = map id_p (players team)"

text \<open>
  Two sums over the players of a team, written out: the meld points plus the trick
  points that the round input holds for them (a missing entry counting 0), and the
  round scores that a result holds for them.
\<close>

abbreviation teamPoints :: "RoundData \<Rightarrow> Team \<Rightarrow> int" where
  "teamPoints rd team \<equiv>
     sum_list (map (lookup0 (meldValues rd)) (teamIds team))
     + sum_list (map (lookup0 (trickPoints rd)) (teamIds team))"

abbreviation playerScoreSum :: "RoundCalculationResult \<Rightarrow> Team \<Rightarrow> int" where
  "playerScoreSum r team \<equiv> sum_list (map (\<lambda>k. the (playerScores r k)) (teamIds team))"

section \<open>The handlers of \<^verbatim>\<open>App\<close> (lines 212-355)\<close>

text \<open>
  Each handler reads the state variables of the render it was created in and writes
  them through \<^verbatim>\<open>setPlayers\<close>, \<^verbatim>\<open>setActiveGame\<close> and \<^verbatim>\<open>setWinner\<close>; the model takes the
  state and returns the new one. A functional update \<^verbatim>\<open>setPlayers(prev => ...)\<close> of
  \<^verbatim>\<open>useLocalStorage\<close> is applied to the stored value of that render (line 19).
\<close>

text \<open>Lines 230-232.\<close>

definition handleStartGame :: "Teams \<Rightarrow> int \<Rightarrow> AppState \<Rightarrow> AppState" where
  "handleStartGame ts target st =
     st\<lparr>activeGame := Some \<lparr>teams = ts, targetScore = target, roundHistory = []\<rparr>\<rparr>"

text \<open>Lines 234-271. \<^verbatim>\<open>spielmacher?.name || '?'\<close>: no such player, or an empty name, give \<^verbatim>\<open>'?'\<close>.\<close>

definition handleAddRound :: "RoundData \<Rightarrow> AppState \<Rightarrow> AppState" where
  "handleAddRound rd st =
     (case activeGame st of
        None \<Rightarrow> st
      | Some g \<Rightarrow>
          let r = calculateRoundScores rd (teams g);
              newPlayers =
                map (\<lambda>p. case playerScores r (id_p p) of
                            Some v \<Rightarrow> p\<lparr>lifetimeScore := lifetimeScore p + v\<rparr>
                          | None \<Rightarrow> p)
                    (app_players st);
              updatedTeams =
                \<lparr> team1 = (team1 (teams g))
                            \<lparr>score := score (team1 (teams g)) + team1RoundScore r\<rparr>,
                  team2 = (team2 (teams g))
                            \<lparr>score := score (team2 (teams g)) + team2RoundScore r\<rparr> \<rparr>;
              spielmacher =
                find (\<lambda>p. id_p p = spielmacherId rd)
                     (players (team1 (teams g)) @ players (team2 (teams g)));
              newRoundHistoryItem =
                \<lparr> h_round = int (length (roundHistory g)) + 1,
                  h_team1RoundScore = team1RoundScore r,
                  h_team2RoundScore = team2RoundScore r,
                  h_team1Total = score (team1 updatedTeams),
                  h_team2Total = score (team2 updatedTeams),
                  h_spielmacherId = spielmacherId rd,
                  h_spielmacherName =
                    (case spielmacher of
                       None \<Rightarrow> ''?''
                     | Some p \<Rightarrow> if name_p p = [] then ''?'' else name_p p),
                  h_bidValue = bidValue rd,
                  h_playerScores = playerScores r \<rparr>
          in st\<lparr> app_players := newPlayers,
                 activeGame :=
                   Some (g\<lparr> teams := updatedTeams,
                            roundHistory := roundHistory g @ [newRoundHistoryItem] \<rparr>) \<rparr>)"

text \<open>
  Lines 273-310. \<^verbatim>\<open>roundHistory[length - 1]\<close> is read on a non-empty array only, and
  \<^verbatim>\<open>slice(0, -1)\<close> drops the last element.
\<close>

definition handleUndoRound :: "AppState \<Rightarrow> AppState" where
  "handleUndoRound st =
     (case activeGame st of
        None \<Rightarrow> st
      | Some g \<Rightarrow>
          if roundHistory g = [] then st
          else
            let lastRound = last (roundHistory g);
                newPlayers =
                  map (\<lambda>p. let pointsToRevert = lookup0 (h_playerScores lastRound) (id_p p)
                            in if pointsToRevert \<noteq> 0
                               then p\<lparr>lifetimeScore := lifetimeScore p - pointsToRevert\<rparr>
                               else p)
                      (app_players st);
                newHistory = butlast (roundHistory g);
                newTeams =
                  \<lparr> team1 = (team1 (teams g))
                              \<lparr>score := score (team1 (teams g)) - h_team1RoundScore lastRound\<rparr>,
                    team2 = (team2 (teams g))
                              \<lparr>score := score (team2 (teams g)) - h_team2RoundScore lastRound\<rparr> \<rparr>
            in st\<lparr> app_players := newPlayers,
                   activeGame := Some (g\<lparr>teams := newTeams, roundHistory := newHistory\<rparr>) \<rparr>)"

text \<open>Lines 312-338. The losing team is found by comparing team names (line 317).\<close>

definition handleEndGame :: "Team \<Rightarrow> AppState \<Rightarrow> AppState" where
  "handleEndGame winnerTeam st =
     (case activeGame st of
        None \<Rightarrow> st
      | Some g \<Rightarrow>
          let loserTeam =
                (if name (team1 (teams g)) = name winnerTeam then team2 (teams g)
                 else team1 (teams g));
              newPlayers =
                map (\<lambda>p.
                       if list_ex (\<lambda>wp. id_p wp = id_p p) (players winnerTeam)
                       then p\<lparr>wins := wins p + 1, gamesPlayed := gamesPlayed p + 1\<rparr>
                       else if list_ex (\<lambda>lp. id_p lp = id_p p) (players loserTeam)
                       then p\<lparr>gamesPlayed := gamesPlayed p + 1\<rparr>
                       else p)
                    (app_players st)
          in st\<lparr>winner := Some winnerTeam, app_players := newPlayers\<rparr>)"

text \<open>Lines 340-344.\<close>

definition handleReset :: "AppState \<Rightarrow> AppState" where
  "handleReset st = st\<lparr>winner := None, activeGame := None, app_view := game\<rparr>"

text \<open>
  Lines 346-355: the effect that React runs after every render in which
  \<^verbatim>\<open>activeGame\<close> or \<^verbatim>\<open>winner\<close> has changed.
\<close>

definition winEffect :: "AppState \<Rightarrow> AppState" where
  "winEffect st =
     (case activeGame st of
        None \<Rightarrow> st
      | Some g \<Rightarrow>
          if winner st \<noteq> None then st
          else if score (team1 (teams g)) \<ge> targetScore g then handleEndGame (team1 (teams g)) st
          else if score (team2 (teams g)) \<ge> targetScore g then handleEndGame (team2 (teams g)) st
          else st)"

text \<open>
  \<^verbatim>\<open>TeamSelectionScreen.handleStart\<close> (lines 464-479), the only caller of
  \<^verbatim>\<open>handleStartGame\<close>. The four arguments are the ids chosen in the four select boxes,
  \<^verbatim>\<open>''\<close> for none. \<^verbatim>\<open>selectedPlayerIds\<close> is the set of the non-empty ones; reading
  \<^verbatim>\<open>.name\<close> of a player that \<^verbatim>\<open>find\<close> did not return throws a \<^verbatim>\<open>TypeError\<close>.
\<close>

datatype error = TypeError

definition selectedPlayerIds :: "string \<Rightarrow> string \<Rightarrow> string \<Rightarrow> string \<Rightarrow> string list" where
  "selectedPlayerIds team1p1 team1p2 team2p1 team2p2 =
     remdups (filter (\<lambda>s. s \<noteq> []) [team1p1, team1p2, team2p1, team2p2])"

definition handleStart ::
  "string \<Rightarrow> string \<Rightarrow> string \<Rightarrow> string \<Rightarrow> int \<Rightarrow> AppState \<Rightarrow> error + AppState" where
  "handleStart team1p1 team1p2 team2p1 team2p2 target st =
     (if length (selectedPlayerIds team1p1 team1p2 team2p1 team2p2) \<noteq> 4 then Inr st
      else
        case (find (\<lambda>p. id_p p = team1p1) (app_players st),
              find (\<lambda>p. id_p p = team1p2) (app_players st),
              find (\<lambda>p. id_p p = team2p1) (app_players st),
              find (\<lambda>p. id_p p = team2p2) (app_players st)) of
          (Some p1_1, Some p1_2, Some p2_1, Some p2_2) \<Rightarrow>
            Inr (handleStartGame
                   \<lparr> team1 = \<lparr> name = name_p p1_1 @ '' & '' @ name_p p1_2,
                               players = [p1_1, p1_2], score = 0 \<rparr>,
                     team2 = \<lparr> name = name_p p2_1 @ '' & '' @ name_p p2_2,
                               players = [p2_1, p2_2], score = 0 \<rparr> \<rparr>
                   target st)
        | _ \<Rightarrow> Inl TypeError)"

text \<open>
  A user action followed by the effect that its re-render triggers.
\<close>

datatype action = AddRound RoundData | UndoRound

fun step :: "action \<Rightarrow> AppState \<Rightarrow> AppState" where
  "step (AddRound rd) st = winEffect (handleAddRound rd st)"
| "step UndoRound st = winEffect (handleUndoRound st)"

definition run :: "action list \<Rightarrow> AppState \<Rightarrow> AppState" where
  "run acts st = fold step acts st"

section \<open>Example data\<close>

text \<open>
  Four players, the two teams that \<open>handleStart\<close> builds from them, and three rounds bid
  by Anna: one made (170 against a bid of 150), one failed (170 against 200) and one
  abandoned. Cleo declares 20 and takes no trick.
\<close>

definition pA :: Player where
  "pA = \<lparr>id_p = ''a'', name_p = ''Anna'', lifetimeScore = 0, gamesPlayed = 0, wins = 0\<rparr>"

definition pB :: Player where
  "pB = \<lparr>id_p = ''b'', name_p = ''Bob'', lifetimeScore = 0, gamesPlayed = 0, wins = 0\<rparr>"

definition pC :: Player where
  "pC = \<lparr>id_p = ''c'', name_p = ''Cleo'', lifetimeScore = 0, gamesPlayed = 0, wins = 0\<rparr>"

definition pD :: Player where
  "pD = \<lparr>id_p = ''d'', name_p = ''Dan'', lifetimeScore = 0, gamesPlayed = 0, wins = 0\<rparr>"

definition ts0 :: Teams where
  "ts0 = \<lparr> team1 = \<lparr>name = ''Anna & Bob'', players = [pA, pB], score = 0\<rparr>,
           team2 = \<lparr>name = ''Cleo & Dan'', players = [pC, pD], score = 0\<rparr> \<rparr>"

definition rdMade :: RoundData where
  "rdMade = \<lparr> spielmacherId = ''a'', bidValue = 150,
              meldValues = [''a'' \<mapsto> 40, ''c'' \<mapsto> 20],
              trickPoints = [''a'' \<mapsto> 100, ''b'' \<mapsto> 30, ''d'' \<mapsto> 110],
              gameAbandoned = False \<rparr>"

definition rdFailed :: RoundData where
  "rdFailed = rdMade\<lparr>bidValue := 200\<rparr>"

definition rdAbandoned :: RoundData where
  "rdAbandoned = rdMade\<lparr>bidValue := 200, gameAbandoned := True\<rparr>"

text \<open>
  The failed and the abandoned round bid by Cleo, of team 2, which holds 130. The round
  that team 2 makes is \<open>rdTeam2\<close> below.
\<close>

definition rdFailed2 :: RoundData where
  "rdFailed2 = rdMade\<lparr>spielmacherId := ''c'', bidValue := 200\<rparr>"

definition rdAbandoned2 :: RoundData where
  "rdAbandoned2 = rdMade\<lparr>spielmacherId := ''c'', bidValue := 200, gameAbandoned := True\<rparr>"

text \<open>The failed round again, bid by somebody who is on neither team.\<close>

definition rdStranger :: RoundData where
  "rdStranger = rdMade\<lparr>spielmacherId := ''zed'', bidValue := 200\<rparr>"

text \<open>
  The application with these four players in its ledger and no game, and the state
  that \<open>handleStart\<close> makes of it for a given target score.
\<close>

definition st0 :: AppState where
  "st0 = \<lparr>app_view = game, app_players = [pA, pB, pC, pD], activeGame = None, winner = None\<rparr>"

definition startedAt :: "int \<Rightarrow> AppState" where
  "startedAt target =
     st0\<lparr>activeGame := Some \<lparr>teams = ts0, targetScore = target, roundHistory = []\<rparr>\<rparr>"

text \<open>
  A ledger in which the players \<open>c\<close> and \<open>d\<close> are a second Anna and a second Bob, the
  teams that \<open>handleStart\<close> builds from it, which bear the same name, and a round that
  team 2 bids and makes with 170 while team 1 gets 110.
\<close>

definition pC2 :: Player where
  "pC2 = \<lparr>id_p = ''c'', name_p = ''Anna'', lifetimeScore = 0, gamesPlayed = 0, wins = 0\<rparr>"

definition pD2 :: Player where
  "pD2 = \<lparr>id_p = ''d'', name_p = ''Bob'', lifetimeScore = 0, gamesPlayed = 0, wins = 0\<rparr>"

definition stNamesakes :: AppState where
  "stNamesakes =
     \<lparr>app_view = game, app_players = [pA, pB, pC2, pD2], activeGame = None, winner = None\<rparr>"

definition tsNamesakes :: Teams where
  "tsNamesakes = \<lparr> team1 = \<lparr>name = ''Anna & Bob'', players = [pA, pB], score = 0\<rparr>,
                   team2 = \<lparr>name = ''Anna & Bob'', players = [pC2, pD2], score = 0\<rparr> \<rparr>"

definition rdTeam2 :: RoundData where
  "rdTeam2 = \<lparr> spielmacherId = ''c'', bidValue = 150,
               meldValues = [''c'' \<mapsto> 40],
               trickPoints = [''c'' \<mapsto> 100, ''d'' \<mapsto> 30, ''b'' \<mapsto> 110],
               gameAbandoned = False \<rparr>"

section \<open>The invariant of the round history\<close>

text \<open>
  Each team's score is the sum of its round scores over the history, and the rounds are
  numbered 1, 2, ... in order.
\<close>

definition historyInvariant :: "GameState \<Rightarrow> bool" where
  "historyInvariant g \<longleftrightarrow>
     score (team1 (teams g)) = sum_list (map h_team1RoundScore (roundHistory g)) \<and>
     score (team2 (teams g)) = sum_list (map h_team2RoundScore (roundHistory g)) \<and>
     map h_round (roundHistory g) = map int [1 ..< Suc (length (roundHistory g))]"

section \<open>Properties of the scoring logic\<close>

lemmas ex_defs = pA_def pB_def pC_def pD_def ts0_def rdMade_def rdFailed_def rdAbandoned_def
  rdFailed2_def rdAbandoned2_def

lemmas namesake_defs = pC2_def pD2_def stNamesakes_def tsNamesakes_def rdTeam2_def

lemmas calc_defs = calculateRoundScores_def spielmacherTeamKey_def otherTeamKey_def
  spielmacherTeam_def otherTeam_def spielmacherTeamTotal_def roundReason_def
  spielmacherTeamRoundScore_def otherTeamRoundScore_def roundPlayerScores_def
  getTeamMeld_def getTeamTricks_def getTeamScoreFromPlayerScores_def assignScores_def
  zeroTrickScore_def lookup0_def teamIds_def

subsection \<open>The loops in closed form\<close>

lemma fold_add_sum: "fold (\<lambda>p (s::int). s + f p) xs a = a + sum_list (map f xs)"
  by (induction xs arbitrary: a) auto

lemma sum_list_all_zero: "\<forall>x \<in> set xs. f x = (0::int) \<Longrightarrow> sum_list (map f xs) = 0"
  by (induction xs) auto

lemma fold_upd_by_id:
  "fold (\<lambda>p acc. acc(id_p p \<mapsto> g (id_p p))) xs ps k =
     (if k \<in> id_p ` set xs then Some (g k) else ps k)"
  by (induction xs arbitrary: ps) auto

lemma assignScores_by_id:
  "assignScores (\<lambda>p. g (id_p p)) team ps k =
     (if k \<in> set (teamIds team) then Some (g k) else ps k)"
  by (simp add: assignScores_def fold_upd_by_id teamIds_def)

lemma assignScores_zero:
  "assignScores (\<lambda>p. 0) team ps k = (if k \<in> set (teamIds team) then Some 0 else ps k)"
  using assignScores_by_id [of "\<lambda>_. 0"] by simp

lemma getTeamMeld_sum:
  "getTeamMeld rd team = sum_list (map (lookup0 (meldValues rd)) (teamIds team))"
  by (simp add: getTeamMeld_def fold_add_sum teamIds_def comp_def)

lemma getTeamTricks_sum:
  "getTeamTricks rd team = sum_list (map (lookup0 (trickPoints rd)) (teamIds team))"
  by (simp add: getTeamTricks_def fold_add_sum teamIds_def comp_def)

lemma getTeamScore_sum:
  "getTeamScoreFromPlayerScores ps team = sum_list (map (\<lambda>k. the (ps k)) (teamIds team))"
  by (simp add: getTeamScoreFromPlayerScores_def fold_add_sum teamIds_def comp_def)

subsection \<open>The bidder's team and the other team\<close>

lemma team_keys_cases:
  "(spielmacherTeamKey rd ts = Team1Key \<and> otherTeamKey rd ts = Team2Key) \<or>
   (spielmacherTeamKey rd ts = Team2Key \<and> otherTeamKey rd ts = Team1Key)"
  by (simp add: otherTeamKey_def spielmacherTeamKey_def)

lemma spielmacherTeamKey_iff:
  "spielmacherTeamKey rd ts = Team1Key \<longleftrightarrow> spielmacherId rd \<in> set (teamIds (team1 ts))"
  by (force simp: spielmacherTeamKey_def list_ex_iff teamIds_def)

text \<open>A bidder who is on one of the teams is on the team the code takes as the bidder's.\<close>

lemma bidder_on_spielmacherTeam:
  "spielmacherId rd \<in> set (teamIds (team1 ts)) \<union> set (teamIds (team2 ts)) \<Longrightarrow>
   spielmacherId rd \<in> set (teamIds (spielmacherTeam rd ts))"
  by (cases "spielmacherTeamKey rd ts")
     (use spielmacherTeamKey_iff [of rd ts] in \<open>auto simp: spielmacherTeam_def\<close>)

lemma both_teams_ids:
  "set (teamIds (spielmacherTeam rd ts)) \<union> set (teamIds (otherTeam rd ts)) =
   set (teamIds (team1 ts)) \<union> set (teamIds (team2 ts))"
  using team_keys_cases [of rd ts] by (auto simp: spielmacherTeam_def otherTeam_def)

lemma teams_disjoint:
  "set (teamIds (team1 ts)) \<inter> set (teamIds (team2 ts)) = {} \<Longrightarrow>
   set (teamIds (spielmacherTeam rd ts)) \<inter> set (teamIds (otherTeam rd ts)) = {}"
  using team_keys_cases [of rd ts] by (auto simp: spielmacherTeam_def otherTeam_def)

subsection \<open>The per-player scores\<close>

text \<open>
  The other team is assigned last, so its entry wins for an id that is on both teams.
\<close>

lemma roundPlayerScores_lookup:
  "roundPlayerScores rd ts k =
     (if k \<in> set (teamIds (otherTeam rd ts)) then
        Some (if gameAbandoned rd then 0 else zeroTrickScore rd k)
      else if k \<in> set (teamIds (spielmacherTeam rd ts)) then
        Some (if gameAbandoned rd then 0
              else if spielmacherTeamTotal rd ts \<ge> bidValue rd
              then zeroTrickScore rd k else 0)
      else None)"
  by (simp add: roundPlayerScores_def assignScores_by_id assignScores_zero)

text \<open>Every read of line 189 finds an entry.\<close>

lemma playerScores_defined:
  "k \<in> set (teamIds (team1 ts)) \<union> set (teamIds (team2 ts)) \<Longrightarrow>
   roundPlayerScores rd ts k \<noteq> None"
  using both_teams_ids [of rd ts] by (auto simp: roundPlayerScores_lookup)

lemma playerScores_dom:
  "dom (roundPlayerScores rd ts) = set (teamIds (team1 ts)) \<union> set (teamIds (team2 ts))"
  using both_teams_ids [of rd ts]
  by (auto simp: roundPlayerScores_lookup dom_def split: if_splits)

lemma roundScoreAt_spielmacher:
  "roundScoreAt (calculateRoundScores rd ts) (spielmacherTeamKey rd ts) =
   spielmacherTeamRoundScore rd ts"
  by (cases "spielmacherTeamKey rd ts") (simp_all add: calculateRoundScores_def)

lemma roundScoreAt_other:
  "roundScoreAt (calculateRoundScores rd ts) (otherTeamKey rd ts) = otherTeamRoundScore rd ts"
  using team_keys_cases [of rd ts] by (auto simp: calculateRoundScores_def)

lemma playerScores_calc: "playerScores (calculateRoundScores rd ts) = roundPlayerScores rd ts"
  by (simp add: calculateRoundScores_def)

subsection \<open>The three branches, by the team the code takes as the bidder's\<close>

lemma key_abandoned:
  assumes "gameAbandoned rd"
  shows "(\<forall>k \<in> set (teamIds (team1 ts)) \<union> set (teamIds (team2 ts)).
            playerScores (calculateRoundScores rd ts) k = Some 0)
       \<and> roundScoreAt (calculateRoundScores rd ts) (spielmacherTeamKey rd ts) = - bidValue rd
       \<and> roundScoreAt (calculateRoundScores rd ts) (otherTeamKey rd ts) = 0
       \<and> reason (calculateRoundScores rd ts) = ''Spielmacher hat abgebrochen''"
proof -
  have scores: "roundPlayerScores rd ts k = Some 0"
    if "k \<in> set (teamIds (team1 ts)) \<union> set (teamIds (team2 ts))" for k
    using that assms both_teams_ids [of rd ts] by (auto simp: roundPlayerScores_lookup)
  have "\<forall>k \<in> set (teamIds (otherTeam rd ts)). the (roundPlayerScores rd ts k) = 0"
    using assms by (simp add: roundPlayerScores_lookup)
  then have "sum_list (map (\<lambda>k. the (roundPlayerScores rd ts k)) (teamIds (otherTeam rd ts))) = 0"
    by (simp add: sum_list_all_zero)
  then have other: "otherTeamRoundScore rd ts = 0"
    by (simp add: otherTeamRoundScore_def getTeamScore_sum)
  have bid: "spielmacherTeamRoundScore rd ts = - bidValue rd"
    using assms by (simp add: spielmacherTeamRoundScore_def)
  have rsn: "reason (calculateRoundScores rd ts) = ''Spielmacher hat abgebrochen''"
    using assms by (simp add: calculateRoundScores_def roundReason_def)
  show ?thesis
    using scores other bid rsn
    by (simp add: roundScoreAt_spielmacher roundScoreAt_other playerScores_calc)
qed

lemma key_bid_failed:
  assumes "\<not> gameAbandoned rd" and "spielmacherTeamTotal rd ts < bidValue rd"
  shows "(set (teamIds (team1 ts)) \<inter> set (teamIds (team2 ts)) = {} \<longrightarrow>
            (\<forall>k \<in> set (teamIds (spielmacherTeam rd ts)).
               playerScores (calculateRoundScores rd ts) k = Some 0))
       \<and> (\<forall>k \<in> set (teamIds (otherTeam rd ts)).
            playerScores (calculateRoundScores rd ts) k = Some (zeroTrickScore rd k))
       \<and> roundScoreAt (calculateRoundScores rd ts) (spielmacherTeamKey rd ts) = - 2 * bidValue rd
       \<and> roundScoreAt (calculateRoundScores rd ts) (otherTeamKey rd ts) =
           playerScoreSum (calculateRoundScores rd ts) (otherTeam rd ts)"
proof -
  have scores: "roundPlayerScores rd ts k = Some 0"
    if "set (teamIds (team1 ts)) \<inter> set (teamIds (team2 ts)) = {}"
      and "k \<in> set (teamIds (spielmacherTeam rd ts))" for k
    using that teams_disjoint [of ts rd] assms by (auto simp: roundPlayerScores_lookup)
  have others: "roundPlayerScores rd ts k = Some (zeroTrickScore rd k)"
    if "k \<in> set (teamIds (otherTeam rd ts))" for k
    using that assms by (simp add: roundPlayerScores_lookup)
  have bid: "spielmacherTeamRoundScore rd ts = - 2 * bidValue rd"
    using assms by (simp add: spielmacherTeamRoundScore_def)
  show ?thesis
    using scores others bid
    by (simp add: roundScoreAt_spielmacher roundScoreAt_other playerScores_calc
        otherTeamRoundScore_def getTeamScore_sum)
qed

lemma key_bid_made:
  assumes "\<not> gameAbandoned rd" and "spielmacherTeamTotal rd ts \<ge> bidValue rd"
  shows "(\<forall>k \<in> set (teamIds (team1 ts)) \<union> set (teamIds (team2 ts)).
            playerScores (calculateRoundScores rd ts) k = Some (zeroTrickScore rd k))
       \<and> roundScoreAt (calculateRoundScores rd ts) (spielmacherTeamKey rd ts) =
           playerScoreSum (calculateRoundScores rd ts) (spielmacherTeam rd ts)
       \<and> roundScoreAt (calculateRoundScores rd ts) (otherTeamKey rd ts) =
           playerScoreSum (calculateRoundScores rd ts) (otherTeam rd ts)"
proof -
  have scores: "roundPlayerScores rd ts k = Some (zeroTrickScore rd k)"
    if "k \<in> set (teamIds (team1 ts)) \<union> set (teamIds (team2 ts))" for k
    using that assms both_teams_ids [of rd ts] by (auto simp: roundPlayerScores_lookup)
  have bid: "spielmacherTeamRoundScore rd ts =
      getTeamScoreFromPlayerScores (roundPlayerScores rd ts) (spielmacherTeam rd ts)"
    using assms by (simp add: spielmacherTeamRoundScore_def)
  show ?thesis
    using scores bid
    by (simp add: roundScoreAt_spielmacher roundScoreAt_other playerScores_calc
        otherTeamRoundScore_def getTeamScore_sum)
qed

subsection \<open>Which team that is\<close>

text \<open>
  A bidder on team 1 makes team 1 the bidder's team. A bidder who is not on team 1, so
  one who is on team 2 only, makes it team 2. The total of lines 168-170 is the sum of
  that team's meld and trick points.
\<close>

lemma bidder_team1:
  assumes "spielmacherId rd \<in> set (teamIds (team1 ts))"
  shows "spielmacherTeamKey rd ts = Team1Key" and "otherTeamKey rd ts = Team2Key"
    and "spielmacherTeam rd ts = team1 ts" and "otherTeam rd ts = team2 ts"
    and "spielmacherTeamTotal rd ts = teamPoints rd (team1 ts)"
proof -
  show key: "spielmacherTeamKey rd ts = Team1Key"
    using assms by (simp add: spielmacherTeamKey_iff)
  then show "otherTeamKey rd ts = Team2Key" by (simp add: otherTeamKey_def)
  then show "otherTeam rd ts = team2 ts" by (simp add: otherTeam_def)
  show team: "spielmacherTeam rd ts = team1 ts" using key by (simp add: spielmacherTeam_def)
  show "spielmacherTeamTotal rd ts = teamPoints rd (team1 ts)"
    by (simp add: spielmacherTeamTotal_def team getTeamMeld_sum getTeamTricks_sum)
qed

lemma bidder_team2:
  assumes "spielmacherId rd \<notin> set (teamIds (team1 ts))"
  shows "spielmacherTeamKey rd ts = Team2Key" and "otherTeamKey rd ts = Team1Key"
    and "spielmacherTeam rd ts = team2 ts" and "otherTeam rd ts = team1 ts"
    and "spielmacherTeamTotal rd ts = teamPoints rd (team2 ts)"
proof -
  show key: "spielmacherTeamKey rd ts = Team2Key"
    using assms spielmacherTeamKey_iff [of rd ts]
    by (cases "spielmacherTeamKey rd ts") simp_all
  then show "otherTeamKey rd ts = Team1Key" by (simp add: otherTeamKey_def)
  then show "otherTeam rd ts = team1 ts" by (simp add: otherTeam_def)
  show team: "spielmacherTeam rd ts = team2 ts" using key by (simp add: spielmacherTeam_def)
  show "spielmacherTeamTotal rd ts = teamPoints rd (team2 ts)"
    by (simp add: spielmacherTeamTotal_def team getTeamMeld_sum getTeamTricks_sum)
qed

subsection \<open>The three branches, by the team the bidder is on\<close>

text \<open>
  Claim C1. In an abandoned round every player of both teams scores 0 and the rationale
  is the fixed text of line 162. If the bidder is on team 1, the round score of team 1
  is minus the bid value and that of team 2 is 0; if the bidder is on team 2 (and not on
  team 1), the round score of team 2 is minus the bid value and that of team 1 is 0;
  whatever meld and trick points were entered.
\<close>

theorem abandoned_round:
  assumes "gameAbandoned rd"
  shows "(\<forall>k \<in> set (teamIds (team1 ts)) \<union> set (teamIds (team2 ts)).
            playerScores (calculateRoundScores rd ts) k = Some 0)
       \<and> (spielmacherId rd \<in> set (teamIds (team1 ts)) \<longrightarrow>
            team1RoundScore (calculateRoundScores rd ts) = - bidValue rd
            \<and> team2RoundScore (calculateRoundScores rd ts) = 0)
       \<and> (spielmacherId rd \<notin> set (teamIds (team1 ts))
            \<and> spielmacherId rd \<in> set (teamIds (team2 ts)) \<longrightarrow>
            team2RoundScore (calculateRoundScores rd ts) = - bidValue rd
            \<and> team1RoundScore (calculateRoundScores rd ts) = 0)
       \<and> reason (calculateRoundScores rd ts) = ''Spielmacher hat abgebrochen''"
proof -
  note k = key_abandoned [OF assms, of ts]
  have one: "team1RoundScore (calculateRoundScores rd ts) = - bidValue rd
            \<and> team2RoundScore (calculateRoundScores rd ts) = 0"
    if "spielmacherId rd \<in> set (teamIds (team1 ts))"
    using k by (simp add: bidder_team1 [OF that])
  have two: "team2RoundScore (calculateRoundScores rd ts) = - bidValue rd
            \<and> team1RoundScore (calculateRoundScores rd ts) = 0"
    if "spielmacherId rd \<notin> set (teamIds (team1 ts))"
    using k by (simp add: bidder_team2 [OF that])
  show ?thesis
    using k one two by blast
qed

text \<open>
  Scenario C of the specification, a bid of 200 abandoned: by Anna of team 1, and by
  Cleo of team 2.
\<close>

theorem abandoned_round_witness:
  "gameAbandoned rdAbandoned
   \<and> spielmacherId rdAbandoned \<in> set (teamIds (team1 ts0))
   \<and> map (playerScores (calculateRoundScores rdAbandoned ts0)) [''a'', ''b'', ''c'', ''d'']
       = [Some 0, Some 0, Some 0, Some 0]
   \<and> team1RoundScore (calculateRoundScores rdAbandoned ts0) = - 200
   \<and> team2RoundScore (calculateRoundScores rdAbandoned ts0) = 0
   \<and> reason (calculateRoundScores rdAbandoned ts0) = ''Spielmacher hat abgebrochen''
   \<and> gameAbandoned rdAbandoned2
   \<and> spielmacherId rdAbandoned2 \<notin> set (teamIds (team1 ts0))
   \<and> spielmacherId rdAbandoned2 \<in> set (teamIds (team2 ts0))
   \<and> map (playerScores (calculateRoundScores rdAbandoned2 ts0)) [''a'', ''b'', ''c'', ''d'']
       = [Some 0, Some 0, Some 0, Some 0]
   \<and> team2RoundScore (calculateRoundScores rdAbandoned2 ts0) = - 200
   \<and> team1RoundScore (calculateRoundScores rdAbandoned2 ts0) = 0"
proof -
  have ab: "gameAbandoned rdAbandoned" "gameAbandoned rdAbandoned2" by (simp_all add: ex_defs)
  have ids: "teamIds (team1 ts0) = [''a'', ''b'']" "teamIds (team2 ts0) = [''c'', ''d'']"
    by (simp_all add: teamIds_def ex_defs)
  have inp: "spielmacherId rdAbandoned = ''a''" "bidValue rdAbandoned = 200"
    "spielmacherId rdAbandoned2 = ''c''" "bidValue rdAbandoned2 = 200"
    by (simp_all add: ex_defs)
  show ?thesis
    using abandoned_round [OF ab(1), of ts0] abandoned_round [OF ab(2), of ts0] ab
    by (simp add: ids inp)
qed

text \<open>
  Claim C2. Take a round that is not abandoned. If the bidder is on team 1 and the meld
  plus trick points of team 1 stay below the bid value, the round score of team 1 is
  minus twice the bid value, every player of team 2 scores by the zero-trick rule, the
  round score of team 2 is the sum of its players' round scores, and, the two teams
  sharing no player, every player of team 1 scores 0. If the bidder is on team 2 (and
  not on team 1), the same holds with the teams exchanged.
\<close>

theorem bid_failed_round:
  assumes "\<not> gameAbandoned rd"
  shows "(spielmacherId rd \<in> set (teamIds (team1 ts))
            \<and> teamPoints rd (team1 ts) < bidValue rd \<longrightarrow>
            (set (teamIds (team1 ts)) \<inter> set (teamIds (team2 ts)) = {} \<longrightarrow>
               (\<forall>k \<in> set (teamIds (team1 ts)).
                  playerScores (calculateRoundScores rd ts) k = Some 0))
            \<and> (\<forall>k \<in> set (teamIds (team2 ts)).
                  playerScores (calculateRoundScores rd ts) k =
                    Some (if lookup0 (trickPoints rd) k = 0 then 0
                          else lookup0 (meldValues rd) k + lookup0 (trickPoints rd) k))
            \<and> team1RoundScore (calculateRoundScores rd ts) = - 2 * bidValue rd
            \<and> team2RoundScore (calculateRoundScores rd ts) =
                playerScoreSum (calculateRoundScores rd ts) (team2 ts))
       \<and> (spielmacherId rd \<notin> set (teamIds (team1 ts))
            \<and> spielmacherId rd \<in> set (teamIds (team2 ts))
            \<and> teamPoints rd (team2 ts) < bidValue rd \<longrightarrow>
            (set (teamIds (team1 ts)) \<inter> set (teamIds (team2 ts)) = {} \<longrightarrow>
               (\<forall>k \<in> set (teamIds (team2 ts)).
                  playerScores (calculateRoundScores rd ts) k = Some 0))
            \<and> (\<forall>k \<in> set (teamIds (team1 ts)).
                  playerScores (calculateRoundScores rd ts) k =
                    Some (if lookup0 (trickPoints rd) k = 0 then 0
                          else lookup0 (meldValues rd) k + lookup0 (trickPoints rd) k))
            \<and> team2RoundScore (calculateRoundScores rd ts) = - 2 * bidValue rd
            \<and> team1RoundScore (calculateRoundScores rd ts) =
                playerScoreSum (calculateRoundScores rd ts) (team1 ts))"
proof -
  have one: "(set (teamIds (team1 ts)) \<inter> set (teamIds (team2 ts)) = {} \<longrightarrow>
               (\<forall>k \<in> set (teamIds (team1 ts)).
                  playerScores (calculateRoundScores rd ts) k = Some 0))
            \<and> (\<forall>k \<in> set (teamIds (team2 ts)).
                  playerScores (calculateRoundScores rd ts) k =
                    Some (if lookup0 (trickPoints rd) k = 0 then 0
                          else lookup0 (meldValues rd) k + lookup0 (trickPoints rd) k))
            \<and> team1RoundScore (calculateRoundScores rd ts) = - 2 * bidValue rd
            \<and> team2RoundScore (calculateRoundScores rd ts) =
                playerScoreSum (calculateRoundScores rd ts) (team2 ts)"
    if b: "spielmacherId rd \<in> set (teamIds (team1 ts))"
      and lt: "teamPoints rd (team1 ts) < bidValue rd"
  proof -
    have "spielmacherTeamTotal rd ts < bidValue rd"
      using lt by (simp only: bidder_team1(5) [OF b])
    from key_bid_failed [OF assms this] show ?thesis
      by (simp add: bidder_team1 [OF b] zeroTrickScore_def)
  qed
  have two: "(set (teamIds (team1 ts)) \<inter> set (teamIds (team2 ts)) = {} \<longrightarrow>
               (\<forall>k \<in> set (teamIds (team2 ts)).
                  playerScores (calculateRoundScores rd ts) k = Some 0))
            \<and> (\<forall>k \<in> set (teamIds (team1 ts)).
                  playerScores (calculateRoundScores rd ts) k =
                    Some (if lookup0 (trickPoints rd) k = 0 then 0
                          else lookup0 (meldValues rd) k + lookup0 (trickPoints rd) k))
            \<and> team2RoundScore (calculateRoundScores rd ts) = - 2 * bidValue rd
            \<and> team1RoundScore (calculateRoundScores rd ts) =
                playerScoreSum (calculateRoundScores rd ts) (team1 ts)"
    if b: "spielmacherId rd \<notin> set (teamIds (team1 ts))"
      and lt: "teamPoints rd (team2 ts) < bidValue rd"
  proof -
    have "spielmacherTeamTotal rd ts < bidValue rd"
      using lt by (simp only: bidder_team2(5) [OF b])
    from key_bid_failed [OF assms this] show ?thesis
      by (simp add: bidder_team2 [OF b] zeroTrickScore_def)
  qed
  show ?thesis
    using one two by blast
qed

text \<open>
  Scenario B with a bid of 200. Bid by Anna, team 1 holds 170 and loses 400, team 2 gets
  Dan's 110. Bid by Cleo, team 2 holds 130 and loses 400, team 1 gets 140 and 30.
\<close>

theorem bid_failed_round_witness:
  "\<not> gameAbandoned rdFailed
   \<and> spielmacherId rdFailed \<in> set (teamIds (team1 ts0))
   \<and> teamPoints rdFailed (team1 ts0) < bidValue rdFailed
   \<and> set (teamIds (team1 ts0)) \<inter> set (teamIds (team2 ts0)) = {}
   \<and> map (playerScores (calculateRoundScores rdFailed ts0)) [''a'', ''b'', ''c'', ''d'']
       = [Some 0, Some 0, Some 0, Some 110]
   \<and> team1RoundScore (calculateRoundScores rdFailed ts0) = - 400
   \<and> team2RoundScore (calculateRoundScores rdFailed ts0) = 110
   \<and> \<not> gameAbandoned rdFailed2
   \<and> spielmacherId rdFailed2 \<notin> set (teamIds (team1 ts0))
   \<and> spielmacherId rdFailed2 \<in> set (teamIds (team2 ts0))
   \<and> teamPoints rdFailed2 (team2 ts0) < bidValue rdFailed2
   \<and> map (playerScores (calculateRoundScores rdFailed2 ts0)) [''a'', ''b'', ''c'', ''d'']
       = [Some 140, Some 30, Some 0, Some 0]
   \<and> team2RoundScore (calculateRoundScores rdFailed2 ts0) = - 400
   \<and> team1RoundScore (calculateRoundScores rdFailed2 ts0) = 170"
proof -
  have na: "\<not> gameAbandoned rdFailed" "\<not> gameAbandoned rdFailed2" by (simp_all add: ex_defs)
  have ids: "teamIds (team1 ts0) = [''a'', ''b'']" "teamIds (team2 ts0) = [''c'', ''d'']"
    by (simp_all add: teamIds_def ex_defs)
  have inp: "spielmacherId rdFailed = ''a''" "bidValue rdFailed = 200"
    "spielmacherId rdFailed2 = ''c''" "bidValue rdFailed2 = 200"
    "map (lookup0 (trickPoints rdFailed)) [''a'', ''b'', ''c'', ''d''] = [100, 30, 0, 110]"
    "map (lookup0 (meldValues rdFailed)) [''a'', ''b'', ''c'', ''d''] = [40, 0, 20, 0]"
    "map (lookup0 (trickPoints rdFailed2)) [''a'', ''b'', ''c'', ''d''] = [100, 30, 0, 110]"
    "map (lookup0 (meldValues rdFailed2)) [''a'', ''b'', ''c'', ''d''] = [40, 0, 20, 0]"
    by (simp_all add: lookup0_def ex_defs)
  show ?thesis
    using bid_failed_round [OF na(1), of ts0] bid_failed_round [OF na(2), of ts0] na inp
    by (simp add: ids)
qed

text \<open>
  Claim C3. Take a round that is not abandoned in which the bidder's team reaches the
  bid value with its meld plus trick points: team 1 if the bidder is on team 1, team 2
  if the bidder is on team 2 (and not on team 1). Then every player of both teams scores
  by one rule: 0 if the player's trick points are 0, whatever the player declared, and
  meld plus trick points otherwise; and the round score of the bidder's team, as that of
  the other team, is the sum of its players' round scores.
\<close>

theorem bid_made_round:
  assumes "\<not> gameAbandoned rd"
    and "spielmacherId rd \<in> set (teamIds (team1 ts)) \<and> teamPoints rd (team1 ts) \<ge> bidValue rd
         \<or> spielmacherId rd \<notin> set (teamIds (team1 ts))
            \<and> spielmacherId rd \<in> set (teamIds (team2 ts))
            \<and> teamPoints rd (team2 ts) \<ge> bidValue rd"
  shows "(\<forall>k \<in> set (teamIds (team1 ts)) \<union> set (teamIds (team2 ts)).
            playerScores (calculateRoundScores rd ts) k =
              Some (if lookup0 (trickPoints rd) k = 0 then 0
                    else lookup0 (meldValues rd) k + lookup0 (trickPoints rd) k))
       \<and> team1RoundScore (calculateRoundScores rd ts) =
           playerScoreSum (calculateRoundScores rd ts) (team1 ts)
       \<and> team2RoundScore (calculateRoundScores rd ts) =
           playerScoreSum (calculateRoundScores rd ts) (team2 ts)"
  using assms(2)
proof (elim disjE conjE)
  assume b: "spielmacherId rd \<in> set (teamIds (team1 ts))"
    and ge: "bidValue rd \<le> teamPoints rd (team1 ts)"
  have "spielmacherTeamTotal rd ts \<ge> bidValue rd"
    using ge by (simp only: bidder_team1(5) [OF b])
  from key_bid_made [OF assms(1) this] show ?thesis
    by (simp add: bidder_team1 [OF b] zeroTrickScore_def)
next
  assume b: "spielmacherId rd \<notin> set (teamIds (team1 ts))"
    and ge: "bidValue rd \<le> teamPoints rd (team2 ts)"
  have "spielmacherTeamTotal rd ts \<ge> bidValue rd"
    using ge by (simp only: bidder_team2(5) [OF b])
  from key_bid_made [OF assms(1) this] show ?thesis
    by (simp add: bidder_team2 [OF b] zeroTrickScore_def)
qed

text \<open>
  Scenario A, a bid of 150 made with 170. Bid by Anna: Cleo, with 20 declared and no
  trick, scores 0. Bid by Cleo: Anna, without a trick, scores 0.
\<close>

theorem bid_made_round_witness:
  "\<not> gameAbandoned rdMade
   \<and> spielmacherId rdMade \<in> set (teamIds (team1 ts0))
   \<and> teamPoints rdMade (team1 ts0) \<ge> bidValue rdMade
   \<and> map (playerScores (calculateRoundScores rdMade ts0)) [''a'', ''b'', ''c'', ''d'']
       = [Some 140, Some 30, Some 0, Some 110]
   \<and> team1RoundScore (calculateRoundScores rdMade ts0) = 170
   \<and> team2RoundScore (calculateRoundScores rdMade ts0) = 110
   \<and> \<not> gameAbandoned rdTeam2
   \<and> spielmacherId rdTeam2 \<notin> set (teamIds (team1 ts0))
   \<and> spielmacherId rdTeam2 \<in> set (teamIds (team2 ts0))
   \<and> teamPoints rdTeam2 (team2 ts0) \<ge> bidValue rdTeam2
   \<and> map (playerScores (calculateRoundScores rdTeam2 ts0)) [''a'', ''b'', ''c'', ''d'']
       = [Some 0, Some 110, Some 140, Some 30]
   \<and> team2RoundScore (calculateRoundScores rdTeam2 ts0) = 170
   \<and> team1RoundScore (calculateRoundScores rdTeam2 ts0) = 110"
proof -
  have na: "\<not> gameAbandoned rdMade" "\<not> gameAbandoned rdTeam2"
    by (simp_all add: ex_defs namesake_defs)
  have ids: "teamIds (team1 ts0) = [''a'', ''b'']" "teamIds (team2 ts0) = [''c'', ''d'']"
    by (simp_all add: teamIds_def ex_defs)
  have inp: "spielmacherId rdMade = ''a''" "bidValue rdMade = 150"
    "spielmacherId rdTeam2 = ''c''" "bidValue rdTeam2 = 150"
    "map (lookup0 (trickPoints rdMade)) [''a'', ''b'', ''c'', ''d''] = [100, 30, 0, 110]"
    "map (lookup0 (meldValues rdMade)) [''a'', ''b'', ''c'', ''d''] = [40, 0, 20, 0]"
    "map (lookup0 (trickPoints rdTeam2)) [''a'', ''b'', ''c'', ''d''] = [0, 110, 100, 30]"
    "map (lookup0 (meldValues rdTeam2)) [''a'', ''b'', ''c'', ''d''] = [0, 0, 40, 0]"
    by (simp_all add: lookup0_def ex_defs namesake_defs)
  have h1: "spielmacherId rdMade \<in> set (teamIds (team1 ts0))
        \<and> teamPoints rdMade (team1 ts0) \<ge> bidValue rdMade
      \<or> spielmacherId rdMade \<notin> set (teamIds (team1 ts0))
        \<and> spielmacherId rdMade \<in> set (teamIds (team2 ts0))
        \<and> teamPoints rdMade (team2 ts0) \<ge> bidValue rdMade"
    using inp by (simp add: ids)
  have h2: "spielmacherId rdTeam2 \<in> set (teamIds (team1 ts0))
        \<and> teamPoints rdTeam2 (team1 ts0) \<ge> bidValue rdTeam2
      \<or> spielmacherId rdTeam2 \<notin> set (teamIds (team1 ts0))
        \<and> spielmacherId rdTeam2 \<in> set (teamIds (team2 ts0))
        \<and> teamPoints rdTeam2 (team2 ts0) \<ge> bidValue rdTeam2"
    using inp by (simp add: ids)
  show ?thesis
    using bid_made_round [OF na(1) h1] bid_made_round [OF na(2) h2] na inp
    by (simp add: ids)
qed

subsection \<open>A bidder who is on neither team\<close>

text \<open>
  Claim C6 says that a bidder id that is on neither team makes the computation fail with
  an error. \<open>calculateRoundScores\<close> has no failure: line 149 takes team 2 for the bidder's
  team whenever the bidder is not on team 1. Here the bidder \<open>zed\<close> is on neither team,
  and the result is the one of a failed bid of team 2, which loses 400.
\<close>

theorem stranger_bidder_counterexample:
  "spielmacherId rdStranger \<notin> set (teamIds (team1 ts0)) \<union> set (teamIds (team2 ts0))
   \<and> team1RoundScore (calculateRoundScores rdStranger ts0) = 170
   \<and> team2RoundScore (calculateRoundScores rdStranger ts0) = - 400
   \<and> map (playerScores (calculateRoundScores rdStranger ts0)) [''a'', ''b'', ''c'', ''d'']
        = [Some 140, Some 30, Some 0, Some 0]
   \<and> reason (calculateRoundScores rdStranger ts0) = ''Reizwert nicht erreicht (130 < 200)''"
  by (simp add: calc_defs ex_defs rdStranger_def showInt_def showNat.simps)

text \<open>
  Claim C6 as amended. Whenever the bidder is not on team 1, in particular when the
  bidder is on neither team, \<open>calculateRoundScores\<close> returns a result that scores every
  player of both teams and treats team 2 as the bidder's team: team 2 gets minus the bid
  value if the round is abandoned, minus twice the bid value if its meld plus trick
  points stay below the bid value, and the sum of its players' scores otherwise; team 1
  gets the sum of its players' scores.
\<close>

theorem stranger_bidder_is_team2:
  assumes "spielmacherId rd \<notin> set (teamIds (team1 ts))"
  shows "spielmacherTeamKey rd ts = Team2Key
       \<and> dom (playerScores (calculateRoundScores rd ts)) =
           set (teamIds (team1 ts)) \<union> set (teamIds (team2 ts))
       \<and> team2RoundScore (calculateRoundScores rd ts) =
           (if gameAbandoned rd then - bidValue rd
            else if getTeamMeld rd (team2 ts) + getTeamTricks rd (team2 ts) < bidValue rd
            then - 2 * bidValue rd
            else sum_list (map (\<lambda>k. the (playerScores (calculateRoundScores rd ts) k))
                               (teamIds (team2 ts))))
       \<and> team1RoundScore (calculateRoundScores rd ts) =
           sum_list (map (\<lambda>k. the (playerScores (calculateRoundScores rd ts) k))
                         (teamIds (team1 ts)))"
proof -
  have key: "spielmacherTeamKey rd ts = Team2Key"
    using assms spielmacherTeamKey_iff [of rd ts]
    by (cases "spielmacherTeamKey rd ts") simp_all
  then have other: "otherTeamKey rd ts = Team1Key"
    by (simp add: otherTeamKey_def)
  show ?thesis
    using key other
    by (simp add: calculateRoundScores_def playerScores_dom spielmacherTeamRoundScore_def
        otherTeamRoundScore_def spielmacherTeamTotal_def spielmacherTeam_def otherTeam_def
        getTeamScore_sum)
qed

theorem stranger_bidder_is_team2_witness:
  "spielmacherId rdStranger \<notin> set (teamIds (team1 ts0))
   \<and> spielmacherTeamKey rdStranger ts0 = Team2Key
   \<and> team2RoundScore (calculateRoundScores rdStranger ts0) = - 400"
proof -
  have h: "spielmacherId rdStranger \<notin> set (teamIds (team1 ts0))"
    by (simp add: teamIds_def ex_defs rdStranger_def)
  have v: "\<not> gameAbandoned rdStranger" "bidValue rdStranger = 200"
    "getTeamMeld rdStranger (team2 ts0) + getTeamTricks rdStranger (team2 ts0) = 130"
    by (simp_all add: calc_defs ex_defs rdStranger_def)
  show ?thesis
    using stranger_bidder_is_team2 [OF h] h by (simp add: v)
qed

section \<open>Properties of the game state\<close>

lemmas app_defs = handleStartGame_def handleAddRound_def handleUndoRound_def
  handleEndGame_def winEffect_def handleStart_def selectedPlayerIds_def run_def

subsection \<open>Starting a game\<close>

lemma selected_four:
  "length (selectedPlayerIds a b c d) = 4 \<longleftrightarrow> distinct [a, b, c, d] \<and> [] \<notin> set [a, b, c, d]"
  by (auto simp: selectedPlayerIds_def split: if_splits)

lemma find_id: "find (\<lambda>p. id_p p = k) xs = Some p \<Longrightarrow> id_p p = k"
  by (auto simp: find_Some_iff)

lemma handleStart_started:
  assumes "length (selectedPlayerIds a b c d) = 4" and "handleStart a b c d target st = Inr st'"
  shows "\<exists>g. activeGame st' = Some g
           \<and> targetScore g = target \<and> roundHistory g = []
           \<and> score (team1 (teams g)) = 0 \<and> score (team2 (teams g)) = 0
           \<and> teamIds (team1 (teams g)) = [a, b] \<and> teamIds (team2 (teams g)) = [c, d]
           \<and> set (teamIds (team1 (teams g))) \<inter> set (teamIds (team2 (teams g))) = {}"
proof -
  have "distinct [a, b, c, d]"
    using assms(1) selected_four [of a b c d] by simp
  then have disj: "set [a, b] \<inter> set [c, d] = {}" by auto
  have "\<exists>g. activeGame st' = Some g
           \<and> targetScore g = target \<and> roundHistory g = []
           \<and> score (team1 (teams g)) = 0 \<and> score (team2 (teams g)) = 0
           \<and> teamIds (team1 (teams g)) = [a, b] \<and> teamIds (team2 (teams g)) = [c, d]"
    using assms
    by (auto simp: handleStart_def handleStartGame_def teamIds_def
             split: option.splits dest: find_id)
  then obtain g where g: "activeGame st' = Some g"
           "targetScore g = target" "roundHistory g = []"
           "score (team1 (teams g)) = 0" "score (team2 (teams g)) = 0"
           "teamIds (team1 (teams g)) = [a, b]" "teamIds (team2 (teams g)) = [c, d]"
    by blast
  have "set (teamIds (team1 (teams g))) \<inter> set (teamIds (team2 (teams g))) = {}"
    using disj by (simp only: g)
  with g show ?thesis by blast
qed

lemma find_id_None: "find (\<lambda>p. id_p p = k) xs = None \<longleftrightarrow> k \<notin> id_p ` set xs"
  by (auto simp: find_None_iff)

lemma find_id_Some: "k \<in> id_p ` set xs \<Longrightarrow> \<exists>p. find (\<lambda>p. id_p p = k) xs = Some p \<and> id_p p = k"
  by (cases "find (\<lambda>p. id_p p = k) xs") (auto simp: find_id_None dest: find_id)

lemma handleStart_in_ledger:
  assumes "length (selectedPlayerIds a b c d) = 4"
    and "set [a, b, c, d] \<subseteq> id_p ` set (app_players st)"
  shows "\<exists>g. handleStart a b c d target st = Inr (st\<lparr>activeGame := Some g\<rparr>)
           \<and> targetScore g = target \<and> roundHistory g = []
           \<and> score (team1 (teams g)) = 0 \<and> score (team2 (teams g)) = 0
           \<and> teamIds (team1 (teams g)) = [a, b] \<and> teamIds (team2 (teams g)) = [c, d]"
proof -
  from assms(2) obtain p1 p2 p3 p4 where
    f: "find (\<lambda>p. id_p p = a) (app_players st) = Some p1" "id_p p1 = a"
       "find (\<lambda>p. id_p p = b) (app_players st) = Some p2" "id_p p2 = b"
       "find (\<lambda>p. id_p p = c) (app_players st) = Some p3" "id_p p3 = c"
       "find (\<lambda>p. id_p p = d) (app_players st) = Some p4" "id_p p4 = d"
    using find_id_Some [of a "app_players st"] find_id_Some [of b "app_players st"]
      find_id_Some [of c "app_players st"] find_id_Some [of d "app_players st"]
    by auto
  let ?g = "\<lparr>teams = \<lparr>team1 = \<lparr>name = name_p p1 @ '' & '' @ name_p p2,
                                     players = [p1, p2], score = 0\<rparr>,
                            team2 = \<lparr>name = name_p p3 @ '' & '' @ name_p p4,
                                     players = [p3, p4], score = 0\<rparr>\<rparr>,
             targetScore = target, roundHistory = []\<rparr>"
  have "handleStart a b c d target st = Inr (st\<lparr>activeGame := Some ?g\<rparr>)"
    using assms(1) by (simp add: handleStart_def handleStartGame_def f)
  then show ?thesis
    by (intro exI [of _ ?g]) (simp add: teamIds_def f)
qed

lemma handleStart_not_in_ledger:
  assumes "length (selectedPlayerIds a b c d) = 4"
    and "\<not> set [a, b, c, d] \<subseteq> id_p ` set (app_players st)"
  shows "handleStart a b c d target st = Inl TypeError"
proof -
  from assms(2) have "find (\<lambda>p. id_p p = a) (app_players st) = None
      \<or> find (\<lambda>p. id_p p = b) (app_players st) = None
      \<or> find (\<lambda>p. id_p p = c) (app_players st) = None
      \<or> find (\<lambda>p. id_p p = d) (app_players st) = None"
    by (auto simp: find_id_None)
  then show ?thesis
    using assms(1) by (auto simp: handleStart_def split: option.splits)
qed

text \<open>
  Claim C7 says that starting a game fails with an error unless there are two teams of
  two players, four distinct ids and a positive target score. Nothing in the code
  checks the target score: \<open>handleStart\<close> starts a game with the target -50. With the
  same player chosen twice it returns without a game and without an error. And
  \<open>handleStartGame\<close> itself stores whatever teams it is given.
\<close>

theorem start_counterexample:
  "handleStart ''a'' ''b'' ''c'' ''d'' (- 50) st0 =
     Inr (st0\<lparr>activeGame := Some \<lparr>teams = ts0, targetScore = - 50, roundHistory = []\<rparr>\<rparr>)
   \<and> handleStart ''a'' ''a'' ''c'' ''d'' 1500 st0 = Inr st0
   \<and> activeGame (handleStartGame \<lparr>team1 = \<lparr>name = ''Anna'', players = [pA], score = 7\<rparr>,
                                   team2 = \<lparr>name = ''Anna'', players = [pA], score = 0\<rparr>\<rparr> 0 st0)
       = Some \<lparr>teams = \<lparr>team1 = \<lparr>name = ''Anna'', players = [pA], score = 7\<rparr>,
                        team2 = \<lparr>name = ''Anna'', players = [pA], score = 0\<rparr>\<rparr>,
               targetScore = 0, roundHistory = []\<rparr>"
  by (simp add: handleStart_def selectedPlayerIds_def handleStartGame_def st0_def ex_defs)

text \<open>
  Claim C7 as amended. No path of \<open>handleStart\<close> or \<open>handleStartGame\<close> checks the target
  score or reports an invalid request. Unless the four chosen ids are non-empty and
  pairwise distinct, \<open>handleStart\<close> returns with the state as it was: no game and no
  error. When they are, and each of them is the id of a player in the ledger, it
  returns, leaving all but the game as it was, with a game that has the target score as
  given, whatever its sign, an empty history, both team scores 0, the first two ids as
  team 1 and the last two as team 2. When they are, and one of them is not the id of a
  player in the ledger, which the selection boxes do not offer, reading the name of the
  player not found throws a \<^verbatim>\<open>TypeError\<close>. \<open>handleStartGame\<close> itself never fails and
  checks nothing: it stores its arguments with an empty history.
\<close>

theorem start_game_gate:
  "(length (selectedPlayerIds a b c d) \<noteq> 4 \<longrightarrow> handleStart a b c d target st = Inr st)
   \<and> (length (selectedPlayerIds a b c d) = 4
        \<and> set [a, b, c, d] \<subseteq> id_p ` set (app_players st) \<longrightarrow>
        distinct [a, b, c, d] \<and> [] \<notin> set [a, b, c, d]
        \<and> (\<exists>g. handleStart a b c d target st = Inr (st\<lparr>activeGame := Some g\<rparr>)
              \<and> targetScore g = target \<and> roundHistory g = []
              \<and> score (team1 (teams g)) = 0 \<and> score (team2 (teams g)) = 0
              \<and> teamIds (team1 (teams g)) = [a, b] \<and> teamIds (team2 (teams g)) = [c, d]))
   \<and> (length (selectedPlayerIds a b c d) = 4
        \<and> \<not> set [a, b, c, d] \<subseteq> id_p ` set (app_players st) \<longrightarrow>
        handleStart a b c d target st = Inl TypeError)
   \<and> handleStartGame ts target st =
        st\<lparr>activeGame := Some \<lparr>teams = ts, targetScore = target, roundHistory = []\<rparr>\<rparr>"
proof -
  have noop: "handleStart a b c d target st = Inr st" if "length (selectedPlayerIds a b c d) \<noteq> 4"
    using that by (simp add: handleStart_def)
  have started: "distinct [a, b, c, d] \<and> [] \<notin> set [a, b, c, d]
        \<and> (\<exists>g. handleStart a b c d target st = Inr (st\<lparr>activeGame := Some g\<rparr>)
              \<and> targetScore g = target \<and> roundHistory g = []
              \<and> score (team1 (teams g)) = 0 \<and> score (team2 (teams g)) = 0
              \<and> teamIds (team1 (teams g)) = [a, b] \<and> teamIds (team2 (teams g)) = [c, d])"
    if "length (selectedPlayerIds a b c d) = 4"
      "set [a, b, c, d] \<subseteq> id_p ` set (app_players st)"
    using handleStart_in_ledger [OF that, of target] selected_four [of a b c d] that(1)
    by blast
  have thrown: "handleStart a b c d target st = Inl TypeError"
    if "length (selectedPlayerIds a b c d) = 4"
      "\<not> set [a, b, c, d] \<subseteq> id_p ` set (app_players st)"
    using handleStart_not_in_ledger [OF that] .
  have stored: "handleStartGame ts target st =
        st\<lparr>activeGame := Some \<lparr>teams = ts, targetScore = target, roundHistory = []\<rparr>\<rparr>"
    by (simp add: handleStartGame_def)
  show ?thesis
    using noop started thrown stored by blast
qed

text \<open>
  Anna chosen twice: nothing happens. Four players of the ledger and the target 0: the
  game starts. A fourth id that no player of the ledger has: a \<^verbatim>\<open>TypeError\<close>.
\<close>

theorem start_game_gate_witness:
  "length (selectedPlayerIds ''a'' ''a'' ''c'' ''d'') \<noteq> 4
   \<and> handleStart ''a'' ''a'' ''c'' ''d'' 1500 st0 = Inr st0
   \<and> length (selectedPlayerIds ''a'' ''b'' ''c'' ''d'') = 4
   \<and> set [''a'', ''b'', ''c'', ''d''] \<subseteq> id_p ` set (app_players st0)
   \<and> (\<exists>g. handleStart ''a'' ''b'' ''c'' ''d'' 0 st0 = Inr (st0\<lparr>activeGame := Some g\<rparr>)
         \<and> targetScore g = 0 \<and> roundHistory g = []
         \<and> score (team1 (teams g)) = 0 \<and> score (team2 (teams g)) = 0
         \<and> teamIds (team1 (teams g)) = [''a'', ''b'']
         \<and> teamIds (team2 (teams g)) = [''c'', ''d''])
   \<and> handleStart ''a'' ''b'' ''c'' ''d'' 0 st0 = Inr (startedAt 0)
   \<and> length (selectedPlayerIds ''a'' ''b'' ''c'' ''zz'') = 4
   \<and> \<not> set [''a'', ''b'', ''c'', ''zz''] \<subseteq> id_p ` set (app_players st0)
   \<and> handleStart ''a'' ''b'' ''c'' ''zz'' 1500 st0 = Inl TypeError"
proof -
  have n: "length (selectedPlayerIds ''a'' ''a'' ''c'' ''d'') \<noteq> 4"
    by (simp add: selectedPlayerIds_def)
  have y: "length (selectedPlayerIds ''a'' ''b'' ''c'' ''d'') = 4"
    "length (selectedPlayerIds ''a'' ''b'' ''c'' ''zz'') = 4"
    by (simp_all add: selectedPlayerIds_def)
  have l: "set [''a'', ''b'', ''c'', ''d''] \<subseteq> id_p ` set (app_players st0)"
    "\<not> set [''a'', ''b'', ''c'', ''zz''] \<subseteq> id_p ` set (app_players st0)"
    by (simp_all add: st0_def ex_defs)
  have s: "handleStart ''a'' ''b'' ''c'' ''d'' 0 st0 = Inr (startedAt 0)"
    by (simp add: handleStart_def selectedPlayerIds_def handleStartGame_def startedAt_def
        st0_def ex_defs)
  note g1 = start_game_gate [of "''a''" "''a''" "''c''" "''d''" 1500 st0, THEN conjunct1]
  note g2 = start_game_gate [of "''a''" "''b''" "''c''" "''d''" 0 st0,
      THEN conjunct2, THEN conjunct1]
  note g3 = start_game_gate [of "''a''" "''b''" "''c''" "''zz''" 1500 st0,
      THEN conjunct2, THEN conjunct2, THEN conjunct1]
  have a: "handleStart ''a'' ''a'' ''c'' ''d'' 1500 st0 = Inr st0"
    using g1 n by blast
  have b: "\<exists>g. handleStart ''a'' ''b'' ''c'' ''d'' 0 st0 = Inr (st0\<lparr>activeGame := Some g\<rparr>)
         \<and> targetScore g = 0 \<and> roundHistory g = []
         \<and> score (team1 (teams g)) = 0 \<and> score (team2 (teams g)) = 0
         \<and> teamIds (team1 (teams g)) = [''a'', ''b'']
         \<and> teamIds (team2 (teams g)) = [''c'', ''d'']"
    using g2 y(1) l(1) by blast
  have c: "handleStart ''a'' ''b'' ''c'' ''zz'' 1500 st0 = Inl TypeError"
    using g3 y(2) l(2) by blast
  show ?thesis
    by (intro conjI n y l a b c s)
qed

subsection \<open>What the handlers leave alone\<close>

lemma handleEndGame_activeGame: "activeGame (handleEndGame w st) = activeGame st"
  by (simp add: handleEndGame_def Let_def split: option.splits)

lemma winEffect_activeGame: "activeGame (winEffect st) = activeGame st"
  by (simp add: winEffect_def handleEndGame_activeGame split: option.splits)

lemma handleAddRound_Some:
  "activeGame st = Some g \<Longrightarrow> \<exists>g'. activeGame (handleAddRound rd st) = Some g'"
  by (simp add: handleAddRound_def Let_def)

lemma handleUndoRound_activeGame_cong:
  "activeGame st = activeGame st' \<Longrightarrow>
   activeGame (handleUndoRound st) = activeGame (handleUndoRound st')"
  by (simp add: handleUndoRound_def Let_def split: option.splits)

subsection \<open>Undo\<close>

lemma undo_add_game:
  "activeGame st = Some g \<Longrightarrow> activeGame (handleUndoRound (handleAddRound rd st)) = Some g"
  by (simp add: handleAddRound_def handleUndoRound_def Let_def)

text \<open>The ledger is restored as well: a score of 0 is neither added nor reverted.\<close>

lemma undo_add_players:
  "app_players (handleUndoRound (handleAddRound rd st)) = app_players st"
  by (cases "activeGame st")
     (auto simp: handleAddRound_def handleUndoRound_def Let_def lookup0_def
           intro!: nth_equalityI split: option.splits)

text \<open>
  Claim C4. Adding a round to an active game and undoing it gives back the game as it
  was: both teams with their scores, the target and the whole history, hence its
  length, however many rounds it holds; so it is when the win check runs after each of
  the two. Undo on an empty history changes nothing.
\<close>

theorem add_then_undo:
  "(activeGame st = Some g \<longrightarrow>
      activeGame (handleUndoRound (handleAddRound rd st)) = Some g \<and>
      activeGame (step UndoRound (step (AddRound rd) st)) = Some g)
   \<and> (activeGame st = Some g \<and> roundHistory g = [] \<longrightarrow> handleUndoRound st = st)"
proof -
  have "activeGame (step UndoRound (step (AddRound rd) st)) =
        activeGame (handleUndoRound (handleAddRound rd st))"
    using handleUndoRound_activeGame_cong [OF winEffect_activeGame [of "handleAddRound rd st"]]
    by (simp add: winEffect_activeGame)
  moreover have "handleUndoRound st = st" if "activeGame st = Some g" "roundHistory g = []"
    using that by (simp add: handleUndoRound_def)
  ultimately show ?thesis
    by (simp add: undo_add_game)
qed

theorem add_then_undo_witness:
  "activeGame (startedAt 1500) = Some \<lparr>teams = ts0, targetScore = 1500, roundHistory = []\<rparr>
   \<and> activeGame (handleUndoRound (handleAddRound rdMade (startedAt 1500)))
       = Some \<lparr>teams = ts0, targetScore = 1500, roundHistory = []\<rparr>
   \<and> activeGame (step UndoRound (step (AddRound rdMade) (startedAt 1500)))
       = Some \<lparr>teams = ts0, targetScore = 1500, roundHistory = []\<rparr>
   \<and> handleUndoRound (startedAt 1500) = startedAt 1500"
proof -
  have g: "activeGame (startedAt 1500) = Some \<lparr>teams = ts0, targetScore = 1500, roundHistory = []\<rparr>"
    by (simp add: startedAt_def)
  show ?thesis
    using add_then_undo [of "startedAt 1500" "\<lparr>teams = ts0, targetScore = 1500, roundHistory = []\<rparr>" rdMade] g
    by simp
qed

subsection \<open>The history invariant\<close>

lemma historyInvariant_add:
  assumes "activeGame st = Some g" and "historyInvariant g"
  shows "\<exists>g'. activeGame (handleAddRound rd st) = Some g' \<and> historyInvariant g'
            \<and> h_round (last (roundHistory g')) = int (length (roundHistory g'))"
  using assms by (simp add: handleAddRound_def Let_def historyInvariant_def)

lemma sum_list_butlast:
  "xs \<noteq> [] \<Longrightarrow> sum_list (map f (butlast xs)) = sum_list (map f xs) - (f (last xs) :: int)"
  by (induction xs) auto

lemma butlast_upt_Suc: "butlast [m ..< Suc n] = [m ..< n]"
  by simp

lemma historyInvariant_undo:
  assumes "activeGame st = Some g" and "historyInvariant g"
  shows "\<exists>g'. activeGame (handleUndoRound st) = Some g' \<and> historyInvariant g'"
proof (cases "roundHistory g = []")
  case True
  with assms show ?thesis by (simp add: handleUndoRound_def)
next
  case False
  have "map h_round (butlast (roundHistory g)) = butlast (map h_round (roundHistory g))"
    by (simp add: map_butlast)
  also have "\<dots> = butlast (map int [1 ..< Suc (length (roundHistory g))])"
    using assms(2) by (simp add: historyInvariant_def)
  also have "\<dots> = map int [1 ..< length (roundHistory g)]"
    by (simp add: map_butlast [symmetric] butlast_upt_Suc del: upt_Suc)
  finally have rounds: "map h_round (butlast (roundHistory g)) =
      map int [1 ..< Suc (length (butlast (roundHistory g)))]"
    using False by (simp add: Suc_diff_Suc del: upt_Suc)
  show ?thesis
    using assms False rounds
    by (simp add: handleUndoRound_def Let_def historyInvariant_def sum_list_butlast del: upt_Suc)
qed

lemma historyInvariant_step:
  assumes "activeGame st = Some g" and "historyInvariant g"
  shows "\<exists>g'. activeGame (step a st) = Some g' \<and> historyInvariant g'"
  using historyInvariant_add [OF assms] historyInvariant_undo [OF assms]
  by (cases a) (auto simp: winEffect_activeGame)

lemma historyInvariant_run:
  assumes "activeGame st = Some g" and "historyInvariant g"
  shows "\<exists>g'. activeGame (run acts st) = Some g' \<and> historyInvariant g'"
proof (induction acts rule: rev_induct)
  case Nil
  from assms show ?case by (simp add: run_def)
next
  case (snoc a acts)
  then obtain g' where "activeGame (run acts st) = Some g'" "historyInvariant g'" by blast
  from historyInvariant_step [OF this, of a] show ?case by (simp add: run_def)
qed

text \<open>
  Rounds change the scores and the history of a game; its players, team names and
  target stay. The teams of a game started by \<open>handleStart\<close> thus share no player id
  (\<open>handleStart_started\<close>) at any time.
\<close>

lemma step_keeps_teams:
  assumes "activeGame st = Some g"
  shows "\<exists>g'. activeGame (step a st) = Some g'
           \<and> players (team1 (teams g')) = players (team1 (teams g))
           \<and> players (team2 (teams g')) = players (team2 (teams g))
           \<and> name (team1 (teams g')) = name (team1 (teams g))
           \<and> name (team2 (teams g')) = name (team2 (teams g))
           \<and> targetScore g' = targetScore g"
  using assms
  by (cases a) (simp_all add: winEffect_activeGame handleAddRound_def handleUndoRound_def Let_def)

lemma run_keeps_teams:
  assumes "activeGame st = Some g"
  shows "\<exists>g'. activeGame (run acts st) = Some g'
           \<and> players (team1 (teams g')) = players (team1 (teams g))
           \<and> players (team2 (teams g')) = players (team2 (teams g))
           \<and> name (team1 (teams g')) = name (team1 (teams g))
           \<and> name (team2 (teams g')) = name (team2 (teams g))
           \<and> targetScore g' = targetScore g"
proof (induction acts rule: rev_induct)
  case Nil
  from assms show ?case by (simp add: run_def)
next
  case (snoc a acts)
  then obtain g' where g': "activeGame (run acts st) = Some g'"
    and same: "players (team1 (teams g')) = players (team1 (teams g))"
      "players (team2 (teams g')) = players (team2 (teams g))"
      "name (team1 (teams g')) = name (team1 (teams g))"
      "name (team2 (teams g')) = name (team2 (teams g))"
      "targetScore g' = targetScore g"
    by blast
  from step_keeps_teams [OF g', of a] same show ?case by (auto simp: run_def)
qed

text \<open>A game that \<open>handleStart\<close> has just started.\<close>

lemma handleStart_fresh:
  assumes "activeGame st = None" and "handleStart a b c d target st = Inr st'"
    and "activeGame st' = Some g"
  shows "score (team1 (teams g)) = 0 \<and> score (team2 (teams g)) = 0 \<and> roundHistory g = []
         \<and> targetScore g = target"
  using assms
  by (auto simp: handleStart_def handleStartGame_def split: if_splits option.splits)

text \<open>
  Claim C5. In every state reached from a game just started, by the win check that
  follows the start and then any finite sequence of added and undone rounds, a game is
  active, each team's score is the sum of its round scores over the entries that remain
  in the history, the round numbers are 1, 2, ... up to the length of the history, and
  a round added next gets as its number the length of the history that holds it.
\<close>

theorem history_invariant:
  assumes "activeGame st = None" and "handleStart a b c d target st = Inr st'"
    and "activeGame st' = Some g0"
  shows "\<exists>g. activeGame (run acts (winEffect st')) = Some g
           \<and> score (team1 (teams g)) = sum_list (map h_team1RoundScore (roundHistory g))
           \<and> score (team2 (teams g)) = sum_list (map h_team2RoundScore (roundHistory g))
           \<and> map h_round (roundHistory g) = map int [1 ..< Suc (length (roundHistory g))]
           \<and> (\<forall>rd. \<exists>g'. activeGame (handleAddRound rd (run acts (winEffect st'))) = Some g'
                 \<and> h_round (last (roundHistory g')) = int (length (roundHistory g')))"
proof -
  have inv0: "historyInvariant g0"
    using handleStart_fresh [OF assms] by (simp add: historyInvariant_def)
  have "activeGame (winEffect st') = Some g0"
    using assms(3) by (simp add: winEffect_activeGame)
  from historyInvariant_run [OF this inv0, of acts]
  obtain g where g: "activeGame (run acts (winEffect st')) = Some g" "historyInvariant g"
    by blast
  have "\<exists>g'. activeGame (handleAddRound rd (run acts (winEffect st'))) = Some g'
           \<and> h_round (last (roundHistory g')) = int (length (roundHistory g'))" for rd
    using historyInvariant_add [OF g, of rd] by blast
  with g show ?thesis by (simp add: historyInvariant_def del: upt_Suc)
qed

text \<open>
  Three rounds, the last of them undone: 170 and -400 remain for team 1, which stands
  at -230, 110 and 110 for team 2, which stands at 220.
\<close>

theorem history_invariant_witness:
  "activeGame st0 = None
   \<and> handleStart ''a'' ''b'' ''c'' ''d'' 1500 st0 = Inr (startedAt 1500)
   \<and> (\<exists>g. activeGame (run [AddRound rdMade, AddRound rdFailed, AddRound rdAbandoned, UndoRound]
                         (winEffect (startedAt 1500))) = Some g
         \<and> score (team1 (teams g)) = sum_list (map h_team1RoundScore (roundHistory g))
         \<and> score (team2 (teams g)) = sum_list (map h_team2RoundScore (roundHistory g))
         \<and> map h_round (roundHistory g) = map int [1 ..< Suc (length (roundHistory g))]
         \<and> score (team1 (teams g)) = - 230 \<and> score (team2 (teams g)) = 220
         \<and> map h_team1RoundScore (roundHistory g) = [170, - 400]
         \<and> map h_team2RoundScore (roundHistory g) = [110, 110]
         \<and> map h_round (roundHistory g) = [1, 2])"
proof -
  let ?acts = "[AddRound rdMade, AddRound rdFailed, AddRound rdAbandoned, UndoRound]"
  have none: "activeGame st0 = None" by (simp add: st0_def)
  have start: "handleStart ''a'' ''b'' ''c'' ''d'' 1500 st0 = Inr (startedAt 1500)"
    by (simp add: handleStart_def selectedPlayerIds_def handleStartGame_def startedAt_def
        st0_def ex_defs)
  have some: "activeGame (startedAt 1500) =
      Some \<lparr>teams = ts0, targetScore = 1500, roundHistory = []\<rparr>"
    by (simp add: startedAt_def)
  from history_invariant [OF none start some, of ?acts]
  obtain g where all: "activeGame (run ?acts (winEffect (startedAt 1500))) = Some g
      \<and> score (team1 (teams g)) = sum_list (map h_team1RoundScore (roundHistory g))
      \<and> score (team2 (teams g)) = sum_list (map h_team2RoundScore (roundHistory g))
      \<and> map h_round (roundHistory g) = map int [1 ..< Suc (length (roundHistory g))]
      \<and> (\<forall>rd. \<exists>g'. activeGame (handleAddRound rd (run ?acts (winEffect (startedAt 1500))))
                     = Some g'
             \<and> h_round (last (roundHistory g')) = int (length (roundHistory g')))" ..
  note g = all [THEN conjunct1]
  note inv = all [THEN conjunct2, THEN conjunct1]
    all [THEN conjunct2, THEN conjunct2, THEN conjunct1]
    all [THEN conjunct2, THEN conjunct2, THEN conjunct2, THEN conjunct1]
  have "\<exists>g'. activeGame (run ?acts (winEffect (startedAt 1500))) = Some g'
     \<and> score (team1 (teams g')) = - 230 \<and> score (team2 (teams g')) = 220
     \<and> map h_team1RoundScore (roundHistory g') = [170, - 400]
     \<and> map h_team2RoundScore (roundHistory g') = [110, 110]
     \<and> map h_round (roundHistory g') = [1, 2]"
    by (simp add: app_defs calc_defs ex_defs st0_def startedAt_def Let_def)
  then obtain g' where g': "activeGame (run ?acts (winEffect (startedAt 1500))) = Some g'"
    and val': "score (team1 (teams g')) = - 230" "score (team2 (teams g')) = 220"
      "map h_team1RoundScore (roundHistory g') = [170, - 400]"
      "map h_team2RoundScore (roundHistory g') = [110, 110]"
      "map h_round (roundHistory g') = [1, 2]"
    by (elim exE conjE)
  have "g' = g" using g g' by simp
  note val = val' [unfolded this]
  show ?thesis
    by (intro conjI exI [of _ g] none start g inv val)
qed

subsection \<open>The winner\<close>

text \<open>
  Claim C8. After a round is added to a game in progress, the win check names team 1
  the winner whenever team 1 has reached the target, also when team 2 has reached it in
  the same round; it names team 2 when team 2 alone has reached it, and nobody
  otherwise.
\<close>

theorem win_priority:
  assumes "activeGame st = Some g" and "winner st = None"
  shows "\<exists>g'. activeGame (handleAddRound rd st) = Some g'
           \<and> (score (team1 (teams g')) \<ge> targetScore g' \<longrightarrow>
                winner (step (AddRound rd) st) = Some (team1 (teams g')))
           \<and> (score (team1 (teams g')) < targetScore g'
                \<and> score (team2 (teams g')) \<ge> targetScore g' \<longrightarrow>
                winner (step (AddRound rd) st) = Some (team2 (teams g')))
           \<and> (score (team1 (teams g')) < targetScore g'
                \<and> score (team2 (teams g')) < targetScore g' \<longrightarrow>
                winner (step (AddRound rd) st) = None)"
proof -
  obtain g' where g': "activeGame (handleAddRound rd st) = Some g'"
    using handleAddRound_Some [OF assms(1)] by blast
  have w: "winner (handleAddRound rd st) = None"
    using assms by (simp add: handleAddRound_def Let_def)
  show ?thesis
    using g' w by (auto simp: winEffect_def handleEndGame_def Let_def)
qed

text \<open>
  With a target of 100 the first round takes team 1 to 170 and team 2 to 110: both have
  reached the target, and team 1 wins.
\<close>

theorem win_priority_witness:
  "activeGame (startedAt 100) = Some \<lparr>teams = ts0, targetScore = 100, roundHistory = []\<rparr>
   \<and> winner (startedAt 100) = None
   \<and> team1RoundScore (calculateRoundScores rdMade ts0) = 170
   \<and> team2RoundScore (calculateRoundScores rdMade ts0) = 110
   \<and> winner (step (AddRound rdMade) (startedAt 100)) = Some ((team1 ts0)\<lparr>score := 170\<rparr>)"
proof -
  have g: "activeGame (startedAt 100) = Some \<lparr>teams = ts0, targetScore = 100, roundHistory = []\<rparr>"
    by (simp add: startedAt_def)
  have w: "winner (startedAt 100) = None"
    by (simp add: startedAt_def st0_def)
  have t: "team1RoundScore (calculateRoundScores rdMade ts0) = 170"
    "team2RoundScore (calculateRoundScores rdMade ts0) = 110"
    by (simp_all add: calc_defs ex_defs)
  from win_priority [OF g w, of rdMade]
  obtain g' where g': "activeGame (handleAddRound rdMade (startedAt 100)) = Some g'"
    and win: "score (team1 (teams g')) \<ge> targetScore g' \<longrightarrow>
              winner (step (AddRound rdMade) (startedAt 100)) = Some (team1 (teams g'))"
    by blast
  have z: "score (team1 ts0) = 0" by (simp add: ts0_def)
  have "team1 (teams g') = (team1 ts0)\<lparr>score := 170\<rparr>" "targetScore g' = 100"
    using g' by (auto simp: handleAddRound_def Let_def startedAt_def t z)
  with win g w t show ?thesis by simp
qed

subsection \<open>Lifetime scores\<close>

lemma handleAddRound_players:
  assumes "activeGame st = Some g"
  shows "app_players (handleAddRound rd st) =
         map (\<lambda>p. p\<lparr>lifetimeScore := lifetimeScore p
                       + lookup0 (playerScores (calculateRoundScores rd (teams g))) (id_p p)\<rparr>)
             (app_players st)"
  using assms by (auto simp: handleAddRound_def Let_def lookup0_def split: option.splits)

lemma handleAddRound_scores:
  assumes "activeGame st = Some g"
  shows "\<exists>g'. activeGame (handleAddRound rd st) = Some g'
     \<and> score (team1 (teams g')) = score (team1 (teams g)) + team1RoundScore (calculateRoundScores rd (teams g))
     \<and> score (team2 (teams g')) = score (team2 (teams g)) + team2RoundScore (calculateRoundScores rd (teams g))"
  using assms by (simp add: handleAddRound_def Let_def)

lemma teamAt_score:
  assumes "activeGame st = Some g"
  shows "\<exists>g'. activeGame (handleAddRound rd st) = Some g'
     \<and> (\<forall>key. score (teamAt (teams g') key) =
           score (teamAt (teams g) key) + roundScoreAt (calculateRoundScores rd (teams g)) key)"
proof -
  from handleAddRound_scores [OF assms, of rd] obtain g' where
    g': "activeGame (handleAddRound rd st) = Some g'"
     "score (team1 (teams g')) = score (team1 (teams g)) + team1RoundScore (calculateRoundScores rd (teams g))"
     "score (team2 (teams g')) = score (team2 (teams g)) + team2RoundScore (calculateRoundScores rd (teams g))"
    by blast
  have "score (teamAt (teams g') key) =
           score (teamAt (teams g) key) + roundScoreAt (calculateRoundScores rd (teams g)) key" for key
    using g' by (cases key) simp_all
  with g' show ?thesis by blast
qed

text \<open>
  Claim C10. Adding a round changes nothing in a player of the ledger but the lifetime
  score, which grows by the player's entry in \<open>playerScores\<close> (by 0 for a player without
  an entry). Hence, when the bidder is on team 1 and the round is abandoned, or team 1's
  meld plus trick points stay below the bid value and the two teams share no player,
  every ledger player of team 1 is left as it was, while the score of team 1 drops by
  the bid value (abandoned) or by twice the bid value (failed). When the bidder is on
  team 2 (and not on team 1), the same holds of team 2.
\<close>

theorem lifetime_frame:
  assumes "activeGame st = Some g"
  shows "app_players (handleAddRound rd st) =
           map (\<lambda>p. p\<lparr>lifetimeScore := lifetimeScore p
                         + lookup0 (playerScores (calculateRoundScores rd (teams g))) (id_p p)\<rparr>)
               (app_players st)
       \<and> (spielmacherId rd \<in> set (teamIds (team1 (teams g)))
            \<and> (gameAbandoned rd
                \<or> teamPoints rd (team1 (teams g)) < bidValue rd
                  \<and> set (teamIds (team1 (teams g))) \<inter> set (teamIds (team2 (teams g))) = {})
            \<longrightarrow>
          (\<forall>i < length (app_players st).
             id_p (app_players st ! i) \<in> set (teamIds (team1 (teams g))) \<longrightarrow>
             app_players (handleAddRound rd st) ! i = app_players st ! i))
       \<and> (spielmacherId rd \<notin> set (teamIds (team1 (teams g)))
            \<and> spielmacherId rd \<in> set (teamIds (team2 (teams g)))
            \<and> (gameAbandoned rd
                \<or> teamPoints rd (team2 (teams g)) < bidValue rd
                  \<and> set (teamIds (team1 (teams g))) \<inter> set (teamIds (team2 (teams g))) = {})
            \<longrightarrow>
          (\<forall>i < length (app_players st).
             id_p (app_players st ! i) \<in> set (teamIds (team2 (teams g))) \<longrightarrow>
             app_players (handleAddRound rd st) ! i = app_players st ! i))
       \<and> (\<exists>g'. activeGame (handleAddRound rd st) = Some g'
            \<and> (spielmacherId rd \<in> set (teamIds (team1 (teams g))) \<and> gameAbandoned rd \<longrightarrow>
                 score (team1 (teams g')) = score (team1 (teams g)) - bidValue rd)
            \<and> (spielmacherId rd \<in> set (teamIds (team1 (teams g))) \<and> \<not> gameAbandoned rd
                 \<and> teamPoints rd (team1 (teams g)) < bidValue rd \<longrightarrow>
                 score (team1 (teams g')) = score (team1 (teams g)) - 2 * bidValue rd)
            \<and> (spielmacherId rd \<notin> set (teamIds (team1 (teams g)))
                 \<and> spielmacherId rd \<in> set (teamIds (team2 (teams g))) \<and> gameAbandoned rd \<longrightarrow>
                 score (team2 (teams g')) = score (team2 (teams g)) - bidValue rd)
            \<and> (spielmacherId rd \<notin> set (teamIds (team1 (teams g)))
                 \<and> spielmacherId rd \<in> set (teamIds (team2 (teams g))) \<and> \<not> gameAbandoned rd
                 \<and> teamPoints rd (team2 (teams g)) < bidValue rd \<longrightarrow>
                 score (team2 (teams g')) = score (team2 (teams g)) - 2 * bidValue rd))"
proof -
  let ?ts = "teams g"
  let ?r = "calculateRoundScores rd ?ts"
  note pl = handleAddRound_players [OF assms, of rd]
  have zero: "lookup0 (playerScores ?r) k = 0"
    if "gameAbandoned rd
        \<or> spielmacherTeamTotal rd ?ts < bidValue rd
          \<and> set (teamIds (team1 ?ts)) \<inter> set (teamIds (team2 ?ts)) = {}"
      and "k \<in> set (teamIds (spielmacherTeam rd ?ts))" for k
    using that teams_disjoint [of ?ts rd]
    by (auto simp: lookup0_def playerScores_calc roundPlayerScores_lookup)
  have unchanged1: "app_players (handleAddRound rd st) ! i = app_players st ! i"
    if b: "spielmacherId rd \<in> set (teamIds (team1 ?ts))"
      and c: "gameAbandoned rd
        \<or> teamPoints rd (team1 ?ts) < bidValue rd
          \<and> set (teamIds (team1 ?ts)) \<inter> set (teamIds (team2 ?ts)) = {}"
      and i: "i < length (app_players st)"
        "id_p (app_players st ! i) \<in> set (teamIds (team1 ?ts))" for i
  proof -
    have c': "gameAbandoned rd
        \<or> spielmacherTeamTotal rd ?ts < bidValue rd
          \<and> set (teamIds (team1 ?ts)) \<inter> set (teamIds (team2 ?ts)) = {}"
      using c by (simp only: bidder_team1(5) [OF b])
    have k: "id_p (app_players st ! i) \<in> set (teamIds (spielmacherTeam rd ?ts))"
      using i(2) by (simp only: bidder_team1(3) [OF b])
    from zero [OF c' k] show ?thesis using i(1) by (simp add: pl)
  qed
  have unchanged2: "app_players (handleAddRound rd st) ! i = app_players st ! i"
    if b: "spielmacherId rd \<notin> set (teamIds (team1 ?ts))"
      and c: "gameAbandoned rd
        \<or> teamPoints rd (team2 ?ts) < bidValue rd
          \<and> set (teamIds (team1 ?ts)) \<inter> set (teamIds (team2 ?ts)) = {}"
      and i: "i < length (app_players st)"
        "id_p (app_players st ! i) \<in> set (teamIds (team2 ?ts))" for i
  proof -
    have c': "gameAbandoned rd
        \<or> spielmacherTeamTotal rd ?ts < bidValue rd
          \<and> set (teamIds (team1 ?ts)) \<inter> set (teamIds (team2 ?ts)) = {}"
      using c by (simp only: bidder_team2(5) [OF b])
    have k: "id_p (app_players st ! i) \<in> set (teamIds (spielmacherTeam rd ?ts))"
      using i(2) by (simp only: bidder_team2(3) [OF b])
    from zero [OF c' k] show ?thesis using i(1) by (simp add: pl)
  qed
  from teamAt_score [OF assms, of rd] obtain g' where
    g': "activeGame (handleAddRound rd st) = Some g'"
    and sc: "\<And>key. score (teamAt (teams g') key) =
           score (teamAt ?ts key) + roundScoreAt ?r key"
    by blast
  have pen: "gameAbandoned rd \<Longrightarrow>
      roundScoreAt ?r (spielmacherTeamKey rd ?ts) = - bidValue rd"
    "\<not> gameAbandoned rd \<Longrightarrow> spielmacherTeamTotal rd ?ts < bidValue rd \<Longrightarrow>
      roundScoreAt ?r (spielmacherTeamKey rd ?ts) = - 2 * bidValue rd"
    by (simp_all add: roundScoreAt_spielmacher spielmacherTeamRoundScore_def)
  have s1: "score (team1 (teams g')) = score (team1 ?ts) - bidValue rd"
    if "spielmacherId rd \<in> set (teamIds (team1 ?ts))" "gameAbandoned rd"
    using sc [of Team1Key] pen(1) [OF that(2)] by (simp add: bidder_team1(1) [OF that(1)])
  have s2: "score (team1 (teams g')) = score (team1 ?ts) - 2 * bidValue rd"
    if b: "spielmacherId rd \<in> set (teamIds (team1 ?ts))" and "\<not> gameAbandoned rd"
      and lt: "teamPoints rd (team1 ?ts) < bidValue rd"
  proof -
    have "spielmacherTeamTotal rd ?ts < bidValue rd"
      using lt by (simp only: bidder_team1(5) [OF b])
    from pen(2) [OF that(2) this] sc [of Team1Key] show ?thesis
      by (simp add: bidder_team1(1) [OF b])
  qed
  have s3: "score (team2 (teams g')) = score (team2 ?ts) - bidValue rd"
    if "spielmacherId rd \<notin> set (teamIds (team1 ?ts))" "gameAbandoned rd"
    using sc [of Team2Key] pen(1) [OF that(2)] by (simp add: bidder_team2(1) [OF that(1)])
  have s4: "score (team2 (teams g')) = score (team2 ?ts) - 2 * bidValue rd"
    if b: "spielmacherId rd \<notin> set (teamIds (team1 ?ts))" and "\<not> gameAbandoned rd"
      and lt: "teamPoints rd (team2 ?ts) < bidValue rd"
  proof -
    have "spielmacherTeamTotal rd ?ts < bidValue rd"
      using lt by (simp only: bidder_team2(5) [OF b])
    from pen(2) [OF that(2) this] sc [of Team2Key] show ?thesis
      by (simp add: bidder_team2(1) [OF b])
  qed
  have scores: "\<exists>g'. activeGame (handleAddRound rd st) = Some g'
            \<and> (spielmacherId rd \<in> set (teamIds (team1 ?ts)) \<and> gameAbandoned rd \<longrightarrow>
                 score (team1 (teams g')) = score (team1 ?ts) - bidValue rd)
            \<and> (spielmacherId rd \<in> set (teamIds (team1 ?ts)) \<and> \<not> gameAbandoned rd
                 \<and> teamPoints rd (team1 ?ts) < bidValue rd \<longrightarrow>
                 score (team1 (teams g')) = score (team1 ?ts) - 2 * bidValue rd)
            \<and> (spielmacherId rd \<notin> set (teamIds (team1 ?ts))
                 \<and> spielmacherId rd \<in> set (teamIds (team2 ?ts)) \<and> gameAbandoned rd \<longrightarrow>
                 score (team2 (teams g')) = score (team2 ?ts) - bidValue rd)
            \<and> (spielmacherId rd \<notin> set (teamIds (team1 ?ts))
                 \<and> spielmacherId rd \<in> set (teamIds (team2 ?ts)) \<and> \<not> gameAbandoned rd
                 \<and> teamPoints rd (team2 ?ts) < bidValue rd \<longrightarrow>
                 score (team2 (teams g')) = score (team2 ?ts) - 2 * bidValue rd)"
    using g' s1 s2 s3 s4 by (intro exI [of _ g']) blast
  show ?thesis
    using pl unchanged1 unchanged2 scores by (intro conjI) blast+
qed

text \<open>
  The failed bid of 200. Bid by Anna, Anna and Bob keep their records and team 1 loses
  400. Bid by Cleo, Cleo and Dan keep theirs and team 2 loses 400.
\<close>

theorem lifetime_frame_witness:
  "activeGame (startedAt 1500) = Some \<lparr>teams = ts0, targetScore = 1500, roundHistory = []\<rparr>
   \<and> set (teamIds (team1 ts0)) \<inter> set (teamIds (team2 ts0)) = {}
   \<and> spielmacherId rdFailed \<in> set (teamIds (team1 ts0))
   \<and> \<not> gameAbandoned rdFailed
   \<and> teamPoints rdFailed (team1 ts0) < bidValue rdFailed
   \<and> app_players (handleAddRound rdFailed (startedAt 1500))
       = [pA, pB, pC, pD\<lparr>lifetimeScore := 110\<rparr>]
   \<and> (\<exists>g'. activeGame (handleAddRound rdFailed (startedAt 1500)) = Some g'
          \<and> score (team1 (teams g')) = - 400)
   \<and> spielmacherId rdFailed2 \<notin> set (teamIds (team1 ts0))
   \<and> spielmacherId rdFailed2 \<in> set (teamIds (team2 ts0))
   \<and> \<not> gameAbandoned rdFailed2
   \<and> teamPoints rdFailed2 (team2 ts0) < bidValue rdFailed2
   \<and> app_players (handleAddRound rdFailed2 (startedAt 1500))
       = [pA\<lparr>lifetimeScore := 140\<rparr>, pB\<lparr>lifetimeScore := 30\<rparr>, pC, pD]
   \<and> (\<exists>g'. activeGame (handleAddRound rdFailed2 (startedAt 1500)) = Some g'
          \<and> score (team2 (teams g')) = - 400)"
proof -
  let ?g = "\<lparr>teams = ts0, targetScore = 1500, roundHistory = []\<rparr>"
  have g: "activeGame (startedAt 1500) = Some ?g"
    by (simp add: startedAt_def)
  have ids: "teamIds (team1 ts0) = [''a'', ''b'']" "teamIds (team2 ts0) = [''c'', ''d'']"
    by (simp_all add: teamIds_def ex_defs)
  have inp: "spielmacherId rdFailed = ''a''" "bidValue rdFailed = 200"
    "spielmacherId rdFailed2 = ''c''" "bidValue rdFailed2 = 200"
    "\<not> gameAbandoned rdFailed" "\<not> gameAbandoned rdFailed2"
    "map (lookup0 (trickPoints rdFailed)) [''a'', ''b'', ''c'', ''d''] = [100, 30, 0, 110]"
    "map (lookup0 (meldValues rdFailed)) [''a'', ''b'', ''c'', ''d''] = [40, 0, 20, 0]"
    "map (lookup0 (trickPoints rdFailed2)) [''a'', ''b'', ''c'', ''d''] = [100, 30, 0, 110]"
    "map (lookup0 (meldValues rdFailed2)) [''a'', ''b'', ''c'', ''d''] = [40, 0, 20, 0]"
    by (simp_all add: lookup0_def ex_defs)
  have ledger: "app_players (startedAt 1500) = [pA, pB, pC, pD]"
    by (simp add: startedAt_def st0_def)
  have pids: "id_p pA = ''a''" "id_p pB = ''b''" "id_p pC = ''c''" "id_p pD = ''d''"
    by (simp_all add: ex_defs)
  have life: "lifetimeScore pA = 0" "lifetimeScore pB = 0" "lifetimeScore pC = 0"
    "lifetimeScore pD = 0"
    by (simp_all add: ex_defs)
  have sc: "map (lookup0 (playerScores (calculateRoundScores rdFailed ts0)))
              [''a'', ''b'', ''c'', ''d''] = [0, 0, 0, 110]"
    "map (lookup0 (playerScores (calculateRoundScores rdFailed2 ts0)))
              [''a'', ''b'', ''c'', ''d''] = [140, 30, 0, 0]"
    by (simp_all add: calc_defs ex_defs)
  have z: "score (team1 ts0) = 0" "score (team2 ts0) = 0" by (simp_all add: ex_defs)
  note f1 = lifetime_frame [OF g, of rdFailed, simplified]
  note f2 = lifetime_frame [OF g, of rdFailed2, simplified]
  have p1: "app_players (handleAddRound rdFailed (startedAt 1500))
       = [pA, pB, pC, pD\<lparr>lifetimeScore := 110\<rparr>]"
    using f1 sc(1) by (simp add: ledger pids life)
  have p2: "app_players (handleAddRound rdFailed2 (startedAt 1500))
       = [pA\<lparr>lifetimeScore := 140\<rparr>, pB\<lparr>lifetimeScore := 30\<rparr>, pC, pD]"
    using f2 sc(2) by (simp add: ledger pids life)
  have r1: "\<exists>g'. activeGame (handleAddRound rdFailed (startedAt 1500)) = Some g'
          \<and> score (team1 (teams g')) = - 400"
    using f1 inp by (auto simp: ids z)
  have r2: "\<exists>g'. activeGame (handleAddRound rdFailed2 (startedAt 1500)) = Some g'
          \<and> score (team2 (teams g')) = - 400"
    using f2 inp by (auto simp: ids z)
  show ?thesis
    using g inp p1 p2 r1 r2 by (simp add: ids)
qed

subsection \<open>Recording the end of a game\<close>

lemma winEffect_won: "winner st \<noteq> None \<Longrightarrow> winEffect st = st"
  by (auto simp: winEffect_def split: option.splits)

lemma winEffect_cases: "winEffect st = st \<or> winner (winEffect st) \<noteq> None"
  by (simp add: winEffect_def handleEndGame_def Let_def split: option.splits)

lemma winEffect_idem: "winEffect (winEffect st) = winEffect st"
  using winEffect_cases [of st] winEffect_won [of "winEffect st"] by auto

lemma handleAddRound_keeps:
  "winner (handleAddRound rd st) = winner st
   \<and> map gamesPlayed (app_players (handleAddRound rd st)) = map gamesPlayed (app_players st)
   \<and> map wins (app_players (handleAddRound rd st)) = map wins (app_players st)"
  by (auto simp: handleAddRound_def Let_def split: option.splits)

lemma handleUndoRound_keeps:
  "winner (handleUndoRound st) = winner st
   \<and> map gamesPlayed (app_players (handleUndoRound st)) = map gamesPlayed (app_players st)
   \<and> map wins (app_players (handleUndoRound st)) = map wins (app_players st)"
  by (auto simp: handleUndoRound_def Let_def split: option.splits)

lemma step_won:
  assumes "winner st \<noteq> None"
  shows "winner (step a st) = winner st
       \<and> map gamesPlayed (app_players (step a st)) = map gamesPlayed (app_players st)
       \<and> map wins (app_players (step a st)) = map wins (app_players st)"
proof (cases a)
  case (AddRound rd)
  have "winner (handleAddRound rd st) \<noteq> None"
    using assms handleAddRound_keeps [of rd st] by simp
  then show ?thesis
    using AddRound handleAddRound_keeps [of rd st] by (simp add: winEffect_won)
next
  case UndoRound
  have "winner (handleUndoRound st) \<noteq> None"
    using assms handleUndoRound_keeps [of st] by simp
  then show ?thesis
    using UndoRound handleUndoRound_keeps [of st] by (simp add: winEffect_won)
qed

lemma completion_is_final:
  assumes "winner st \<noteq> None"
  shows "winner (run acts st) = winner st
       \<and> map gamesPlayed (app_players (run acts st)) = map gamesPlayed (app_players st)
       \<and> map wins (app_players (run acts st)) = map wins (app_players st)"
proof (induction acts rule: rev_induct)
  case Nil
  show ?case by (simp add: run_def)
next
  case (snoc a acts)
  then have "winner (run acts st) \<noteq> None" using assms by simp
  from step_won [OF this, of a] snoc show ?case by (simp add: run_def)
qed

lemma handleReset_clears:
  "winner (handleReset st) = None \<and> activeGame (handleReset st) = None
   \<and> app_players (handleReset st) = app_players st"
  by (simp add: handleReset_def)

text \<open>
  So the win check records a game once, and no later round or undo changes the winner,
  the games played or the wins (\<open>completion_is_final\<close>); only \<open>handleReset\<close> clears the
  winner, together with the game. What is recorded is right when team 1 wins, and when
  team 2 wins and the teams bear different names:
\<close>

lemma on_team_iff: "list_ex (\<lambda>q. id_p q = k) (players t) \<longleftrightarrow> k \<in> set (teamIds t)"
  by (force simp: list_ex_iff teamIds_def)

lemma handleEndGame_team1:
  assumes "activeGame st = Some g"
  shows "app_players (handleEndGame (team1 (teams g)) st) =
     map (\<lambda>p. if id_p p \<in> set (teamIds (team1 (teams g)))
               then p\<lparr>wins := wins p + 1, gamesPlayed := gamesPlayed p + 1\<rparr>
               else if id_p p \<in> set (teamIds (team2 (teams g)))
               then p\<lparr>gamesPlayed := gamesPlayed p + 1\<rparr>
               else p) (app_players st)"
  using assms by (simp add: handleEndGame_def Let_def on_team_iff)

lemma handleEndGame_team2:
  assumes "activeGame st = Some g" and "name (team1 (teams g)) \<noteq> name (team2 (teams g))"
  shows "app_players (handleEndGame (team2 (teams g)) st) =
     map (\<lambda>p. if id_p p \<in> set (teamIds (team2 (teams g)))
               then p\<lparr>wins := wins p + 1, gamesPlayed := gamesPlayed p + 1\<rparr>
               else if id_p p \<in> set (teamIds (team1 (teams g)))
               then p\<lparr>gamesPlayed := gamesPlayed p + 1\<rparr>
               else p) (app_players st)"
  using assms by (simp add: handleEndGame_def Let_def on_team_iff)

text \<open>
  Claim C9 says that the end of a game counts one game played for all four players and
  one win for the two winners. Line 317 finds the losing team by comparing team names,
  and a team name is made of the two players' names, which need not be unique. Here both
  teams are called \<open>Anna & Bob\<close>; team 2 wins, the loser is taken to be team 2 as well,
  and the two players of team 1 get no game played. With the teams of \<open>ts0\<close>, the same
  round counts a game for all four.
\<close>

theorem namesake_teams_completion:
  "handleStart ''a'' ''b'' ''c'' ''d'' 150 stNamesakes =
     Inr (stNamesakes\<lparr>activeGame :=
            Some \<lparr>teams = tsNamesakes, targetScore = 150, roundHistory = []\<rparr>\<rparr>)
   \<and> winner (step (AddRound rdTeam2)
        (stNamesakes\<lparr>activeGame :=
            Some \<lparr>teams = tsNamesakes, targetScore = 150, roundHistory = []\<rparr>\<rparr>))
       = Some \<lparr>name = ''Anna & Bob'', players = [pC2, pD2], score = 170\<rparr>
   \<and> map gamesPlayed (app_players (step (AddRound rdTeam2)
        (stNamesakes\<lparr>activeGame :=
            Some \<lparr>teams = tsNamesakes, targetScore = 150, roundHistory = []\<rparr>\<rparr>)))
       = [0, 0, 1, 1]
   \<and> map wins (app_players (step (AddRound rdTeam2)
        (stNamesakes\<lparr>activeGame :=
            Some \<lparr>teams = tsNamesakes, targetScore = 150, roundHistory = []\<rparr>\<rparr>)))
       = [0, 0, 1, 1]
   \<and> map gamesPlayed (app_players (step (AddRound rdTeam2) (startedAt 150))) = [1, 1, 1, 1]
   \<and> map wins (app_players (step (AddRound rdTeam2) (startedAt 150))) = [0, 0, 1, 1]"
  by (simp add: app_defs calc_defs ex_defs namesake_defs st0_def startedAt_def Let_def)

end
